theory Spec2Isabelle
  imports Complex_Main
begin

section \<open>Python values, exceptions and library functions\<close>

text \<open>
  The program is one Python module, \<^verbatim>\<open>voicemail_to_email_simple_hyperlink.py\<close>.
  Every \<^verbatim>\<open>raise\<close> of the source (and every exception a builtin raises on the
  values the code hands it) is a value \<open>Inl e\<close> of a sum type; a \<^verbatim>\<open>try/except\<close>
  is a case distinction on that sum.
\<close>

datatype exn =
    AttributeError | TypeError | KeyError | IndexError | ValueError
  | OverflowError | OSError | RuntimeError | TimeoutError
  | TranscriptionError string
  | ClientError string
  | OtherError string

text \<open>
  Python floats: the finite doubles are rationals; infinities and NaN are separate values.
  Both zeros are \<open>Finite 0\<close>.
\<close>

datatype pyfloat = Finite rat | PosInf | NegInf | NaN

text \<open>What \<^verbatim>\<open>json.loads\<close> and the Lambda runtime produce: dicts keep their items in order.\<close>

datatype json =
    JNull | JBool bool | JInt int | JFloat pyfloat | JStr string
  | JList "json list" | JDict "(string \<times> json) list"

text \<open>
  Library functions the module calls and whose code is not part of the repository are
  parameters of the model: \<^verbatim>\<open>float(str)\<close> (None is ValueError), \<^verbatim>\<open>float(int)\<close>
  (None is OverflowError), the addition of two floats, \<^verbatim>\<open>str(value)\<close> as used by an f-string on a value that is not
  a string, the raw HMAC-SHA256 digest (its bytes as characters), and \<^verbatim>\<open>urllib.parse.quote\<close> with
  \<^verbatim>\<open>safe=''\<close> and \<^verbatim>\<open>unquote\<close>.
\<close>

record pylib =
  float_of_str :: "string \<Rightarrow> pyfloat option"
  float_of_int :: "int \<Rightarrow> pyfloat option"
  float_add :: "pyfloat \<Rightarrow> pyfloat \<Rightarrow> pyfloat"
  str_of :: "json \<Rightarrow> string"
  hmac_sha256 :: "string \<Rightarrow> string \<Rightarrow> string"
  quote :: "string \<Rightarrow> string"
  unquote :: "string \<Rightarrow> string"

text \<open>Truthiness, as \<^verbatim>\<open>if x\<close> and \<^verbatim>\<open>not x\<close> test it.\<close>

fun truthy :: "json \<Rightarrow> bool" where
  "truthy JNull = False"
| "truthy (JBool b) = b"
| "truthy (JInt i) = (i \<noteq> 0)"
| "truthy (JFloat f) = (f \<noteq> Finite 0)"
| "truthy (JStr s) = (s \<noteq> [])"
| "truthy (JList xs) = (xs \<noteq> [])"
| "truthy (JDict kvs) = (kvs \<noteq> [])"

text \<open>\<^verbatim>\<open>obj.get(key, default)\<close>: only a dict has the method.\<close>

fun py_get :: "json \<Rightarrow> string \<Rightarrow> json \<Rightarrow> exn + json" where
  "py_get (JDict kvs) k dflt = Inr (case map_of kvs k of None \<Rightarrow> dflt | Some v \<Rightarrow> v)"
| "py_get _ k dflt = Inl AttributeError"

text \<open>\<^verbatim>\<open>obj[key]\<close> with a string key: KeyError on a dict without it, TypeError elsewhere.\<close>

fun py_subscript :: "json \<Rightarrow> string \<Rightarrow> exn + json" where
  "py_subscript (JDict kvs) k = (case map_of kvs k of None \<Rightarrow> Inl KeyError | Some v \<Rightarrow> Inr v)"
| "py_subscript _ k = Inl TypeError"

text \<open>
  \<^verbatim>\<open>obj[0]\<close>: the first element of a list or the first character of a string (IndexError
  when empty); a dict from JSON has string keys only, so \<open>0\<close> is a missing key.
\<close>

fun py_index0 :: "json \<Rightarrow> exn + json" where
  "py_index0 (JList []) = Inl IndexError"
| "py_index0 (JList (x # xs)) = Inr x"
| "py_index0 (JStr []) = Inl IndexError"
| "py_index0 (JStr (c # cs)) = Inr (JStr [c])"
| "py_index0 (JDict kvs) = Inl KeyError"
| "py_index0 _ = Inl TypeError"

text \<open>The builtin \<^verbatim>\<open>float(x)\<close>.\<close>

fun py_float :: "pylib \<Rightarrow> json \<Rightarrow> exn + pyfloat" where
  "py_float lib (JStr s) = (case float_of_str lib s of None \<Rightarrow> Inl ValueError | Some f \<Rightarrow> Inr f)"
| "py_float lib (JFloat f) = Inr f"
| "py_float lib (JInt i) = (case float_of_int lib i of None \<Rightarrow> Inl OverflowError | Some f \<Rightarrow> Inr f)"
| "py_float lib (JBool b) = Inr (Finite (if b then 1 else 0))"
| "py_float lib _ = Inl TypeError"

section \<open>Recording duration\<close>

text \<open>
  The loop \<^verbatim>\<open>for item in reversed(items)\<close> of \<^verbatim>\<open>get_actual_recording_duration\<close>, on the
  items already reversed: the first item whose \<^verbatim>\<open>end_time\<close> is truthy decides.
\<close>

fun scan_end_time :: "pylib \<Rightarrow> json list \<Rightarrow> exn + pyfloat" where
  "scan_end_time lib [] = Inr (Finite 0)"
| "scan_end_time lib (item # rest) =
     (case py_get item ''end_time'' JNull of
        Inl e \<Rightarrow> Inl e
      | Inr v \<Rightarrow> if truthy v then py_float lib v else scan_end_time lib rest)"

text \<open>
  The body of the \<^verbatim>\<open>try\<close>. \<^verbatim>\<open>reversed\<close> of a number raises TypeError; reversing a
  non-empty string or dict yields strings, on which \<^verbatim>\<open>item.get\<close> raises AttributeError.
\<close>

definition duration_body :: "pylib \<Rightarrow> json \<Rightarrow> exn + pyfloat" where
  "duration_body lib results =
     (case py_get results ''items'' (JList []) of
        Inl e \<Rightarrow> Inl e
      | Inr items \<Rightarrow>
          if \<not> truthy items then Inr (Finite 0)
          else (case items of
                  JList xs \<Rightarrow> scan_end_time lib (rev xs)
                | JStr s \<Rightarrow> Inl AttributeError
                | JDict kvs \<Rightarrow> Inl AttributeError
                | _ \<Rightarrow> Inl TypeError))"

text \<open>\<^verbatim>\<open>except Exception\<close> turns every exception of the body into \<open>0.0\<close>.\<close>

definition get_actual_recording_duration :: "pylib \<Rightarrow> json \<Rightarrow> exn + pyfloat" where
  "get_actual_recording_duration lib results =
     (case duration_body lib results of Inl e \<Rightarrow> Inr (Finite 0) | Inr d \<Rightarrow> Inr d)"

text \<open>An item that is a dict and has no truthy \<^verbatim>\<open>end_time\<close>.\<close>

definition no_end_time :: "json \<Rightarrow> bool" where
  "no_end_time item = (case item of
      JDict kvs \<Rightarrow> (case map_of kvs ''end_time'' of None \<Rightarrow> True | Some v \<Rightarrow> \<not> truthy v)
    | _ \<Rightarrow> False)"

text \<open>
  A stand-in for the library in evaluated examples: \<^verbatim>\<open>float\<close> reads plain decimals
  (\<open>digits\<close> or \<open>digits.digits\<close>) exactly, finite floats add exactly, the digest is the bytes of key and message,
  and \<^verbatim>\<open>quote\<close>/\<^verbatim>\<open>unquote\<close> are the identity (as they are on letters and digits).
\<close>

definition is_digit :: "char \<Rightarrow> bool" where
  "is_digit c = ((48::nat) \<le> of_char c \<and> of_char c \<le> (57::nat))"

definition digits_value :: "string \<Rightarrow> nat" where
  "digits_value s = foldl (\<lambda>acc c. 10 * acc + (of_char c - 48)) (0::nat) s"

definition plain_decimal :: "string \<Rightarrow> pyfloat option" where
  "plain_decimal s =
     (let ip = takeWhile is_digit s; r = dropWhile is_digit s in
      if ip = [] then None
      else if r = [] then Some (Finite (of_nat (digits_value ip)))
      else if hd r = CHR ''.'' \<and> tl r \<noteq> [] \<and> list_all is_digit (tl r)
        then Some (Finite (of_nat (digits_value ip)
                   + of_nat (digits_value (tl r)) / of_nat (10 ^ length (tl r))))
      else None)"

definition test_lib :: pylib where
  "test_lib = \<lparr> float_of_str = plain_decimal,
                float_of_int = (\<lambda>i. Some (Finite (of_int i))),
                float_add = (\<lambda>a b. case (a, b) of
                               (Finite x, Finite y) \<Rightarrow> Finite (x + y) | _ \<Rightarrow> NaN),
                str_of = (\<lambda>v. ''None''),
                hmac_sha256 = (\<lambda>k m. k @ CHR '':'' # m),
                quote = (\<lambda>s. s),
                unquote = (\<lambda>s. s) \<rparr>"

section \<open>Strings\<close>

text \<open>
  Python strings are sequences of code points; the model has the code points below 256
  (\<open>char\<close>). \<^verbatim>\<open>str.isspace\<close> on that range:
\<close>

definition is_space :: "char \<Rightarrow> bool" where
  "is_space c = (let n = (of_char c :: nat) in
      (9 \<le> n \<and> n \<le> 13) \<or> (28 \<le> n \<and> n \<le> 32) \<or> n = 133 \<or> n = 160)"

definition py_strip :: "string \<Rightarrow> string" where
  "py_strip s = rev (dropWhile is_space (rev (dropWhile is_space s)))"

text \<open>\<^verbatim>\<open>' '.join(xs)\<close> on strings.\<close>

fun join_sp :: "string list \<Rightarrow> string" where
  "join_sp [] = []"
| "join_sp [x] = x"
| "join_sp (x # y # ys) = x @ CHR '' '' # join_sp (y # ys)"

text \<open>
  \<^verbatim>\<open>s.replace(old, new)\<close> for a non-empty \<open>old\<close>: every occurrence, left to right,
  without overlap. (The module only replaces two-character patterns.)
\<close>

function py_replace :: "string \<Rightarrow> string \<Rightarrow> string \<Rightarrow> string" where
  "py_replace old new [] = []"
| "py_replace old new (c # cs) =
     (if old \<noteq> [] \<and> take (length old) (c # cs) = old
      then new @ py_replace old new (drop (length old) (c # cs))
      else c # py_replace old new cs)"
  by pat_completeness auto
termination
  by (relation "measure (\<lambda>(old, new, s). length s)") auto

text \<open>\<^verbatim>\<open>s[:limit]\<close>: a negative limit counts from the end.\<close>

definition py_slice_to :: "int \<Rightarrow> 'a list \<Rightarrow> 'a list" where
  "py_slice_to limit s =
     (if 0 \<le> limit then take (nat limit) s else take (length s - nat (- limit)) s)"

section \<open>Transcript preview\<close>

text \<open>
  Iterating a value with \<^verbatim>\<open>for x in v\<close>: a list gives its elements, a string its
  characters, a dict its keys; anything else is not iterable.
\<close>

fun py_iter :: "json \<Rightarrow> exn + json list" where
  "py_iter (JList xs) = Inr xs"
| "py_iter (JStr s) = Inr (map (\<lambda>c. JStr [c]) s)"
| "py_iter (JDict kvs) = Inr (map (\<lambda>kv. JStr (fst kv)) kvs)"
| "py_iter _ = Inl TypeError"

text \<open>
  \<^verbatim>\<open>a += b\<close> on JSON values: strings concatenate, a list is extended by an iterable,
  integers and booleans add as integers, and when one side is a float the other number is
  converted to a float first (OverflowError for an integer too large) and the floats are
  added; every other pairing raises TypeError.
\<close>

fun as_int :: "json \<Rightarrow> int option" where
  "as_int (JInt i) = Some i"
| "as_int (JBool b) = Some (if b then 1 else 0)"
| "as_int _ = None"

definition add_float :: "pylib \<Rightarrow> pyfloat \<Rightarrow> json \<Rightarrow> bool \<Rightarrow> exn + json" where
  "add_float lib f other float_first =
     (case other of
        JFloat g \<Rightarrow> Inr (JFloat (if float_first then float_add lib f g else float_add lib g f))
      | _ \<Rightarrow>
          (case as_int other of
             None \<Rightarrow> Inl TypeError
           | Some i \<Rightarrow>
               (case float_of_int lib i of
                  None \<Rightarrow> Inl OverflowError
                | Some g \<Rightarrow>
                    Inr (JFloat (if float_first then float_add lib f g
                                 else float_add lib g f)))))"

fun py_iadd :: "pylib \<Rightarrow> json \<Rightarrow> json \<Rightarrow> exn + json" where
  "py_iadd lib (JStr a) (JStr b) = Inr (JStr (a @ b))"
| "py_iadd lib (JList a) b =
     (case py_iter b of Inl e \<Rightarrow> Inl e | Inr xs \<Rightarrow> Inr (JList (a @ xs)))"
| "py_iadd lib (JFloat a) b = add_float lib a b True"
| "py_iadd lib a (JFloat b) =
     (case as_int a of None \<Rightarrow> Inl TypeError | Some i \<Rightarrow> add_float lib b a False)"
| "py_iadd lib a b =
     (case (as_int a, as_int b) of
        (Some i, Some j) \<Rightarrow> Inr (JInt (i + j))
      | _ \<Rightarrow> Inl TypeError)"

text \<open>\<^verbatim>\<open>' '.join(words)\<close> on a list of values: TypeError unless all are strings.\<close>

fun str_items :: "json list \<Rightarrow> exn + string list" where
  "str_items [] = Inr []"
| "str_items (JStr s # rest) = (case str_items rest of Inl e \<Rightarrow> Inl e | Inr ss \<Rightarrow> Inr (s # ss))"
| "str_items (_ # rest) = Inl TypeError"

text \<open>
  The inner loop of \<^verbatim>\<open>_build_preview_channel\<close> over the items of one channel, with the
  list \<^verbatim>\<open>words\<close> built so far. The content is read before the type is tested.
\<close>

fun channel_items :: "pylib \<Rightarrow> json list \<Rightarrow> json list \<Rightarrow> exn + json list" where
  "channel_items lib [] words = Inr words"
| "channel_items lib (item # rest) words =
     (case py_get item ''type'' JNull of Inl e \<Rightarrow> Inl e | Inr item_type \<Rightarrow>
      case py_subscript item ''alternatives'' of Inl e \<Rightarrow> Inl e | Inr alts \<Rightarrow>
      case py_index0 alts of Inl e \<Rightarrow> Inl e | Inr alt \<Rightarrow>
      case py_get alt ''content'' (JStr []) of Inl e \<Rightarrow> Inl e | Inr content \<Rightarrow>
        if item_type = JStr ''pronunciation'' then channel_items lib rest (words @ [content])
        else if item_type = JStr ''punctuation'' \<and> words \<noteq> [] then
          (case py_iadd lib (last words) content of
             Inl e \<Rightarrow> Inl e
           | Inr w \<Rightarrow> channel_items lib rest (butlast words @ [w]))
        else if item_type = JStr ''punctuation'' then channel_items lib rest (words @ [content])
        else channel_items lib rest words)"

text \<open>The outer loop over the channels, with \<^verbatim>\<open>all_words\<close> built so far.\<close>

fun channel_loop :: "pylib \<Rightarrow> json list \<Rightarrow> string list \<Rightarrow> exn + string list" where
  "channel_loop lib [] all_words = Inr all_words"
| "channel_loop lib (channel # rest) all_words =
     (case py_get channel ''items'' (JList []) of Inl e \<Rightarrow> Inl e | Inr its \<Rightarrow>
      case py_iter its of Inl e \<Rightarrow> Inl e | Inr items \<Rightarrow>
      case channel_items lib items [] of Inl e \<Rightarrow> Inl e | Inr words \<Rightarrow>
      case str_items words of Inl e \<Rightarrow> Inl e | Inr ws \<Rightarrow>
        (let text = py_strip (py_replace '' .'' ''.'' (py_replace '' ,'' '','' (join_sp ws)))
         in channel_loop lib rest (if text \<noteq> [] then all_words @ [text] else all_words)))"

definition build_preview_channel :: "pylib \<Rightarrow> json \<Rightarrow> int \<Rightarrow> exn + string" where
  "build_preview_channel lib results limit =
     (case py_get results ''channel_labels'' (JDict []) of Inl e \<Rightarrow> Inl e | Inr labels \<Rightarrow>
      case py_get labels ''channels'' (JList []) of Inl e \<Rightarrow> Inl e | Inr chs \<Rightarrow>
      case py_iter chs of Inl e \<Rightarrow> Inl e | Inr channels \<Rightarrow>
      case channel_loop lib channels [] of Inl e \<Rightarrow> Inl e | Inr all_words \<Rightarrow>
        Inr (py_slice_to limit (py_strip (join_sp all_words))))"

text \<open>
  \<^verbatim>\<open>build_transcription_preview\<close>. The diarization builder is an argument: no property
  stated here concerns it, and the handler always passes the mode \<^verbatim>\<open>channel\<close>. In the
  last branch a list can be sliced but has no \<^verbatim>\<open>strip\<close>.
\<close>

definition build_transcription_preview ::
  "pylib \<Rightarrow> (json \<Rightarrow> int \<Rightarrow> exn + string) \<Rightarrow> json \<Rightarrow> string \<Rightarrow> int
     \<Rightarrow> exn + string" where
  "build_transcription_preview lib build_preview_diarization results mode limit =
     (case (if mode = ''channel'' then py_get results ''channel_labels'' JNull
            else Inr JNull) of Inl e \<Rightarrow> Inl e | Inr ch \<Rightarrow>
      if mode = ''channel'' \<and> truthy ch then build_preview_channel lib results limit
      else
      case (if mode = ''diarization'' then py_get results ''speaker_labels'' JNull
            else Inr JNull) of Inl e \<Rightarrow> Inl e | Inr sp \<Rightarrow>
      if mode = ''diarization'' \<and> truthy sp then build_preview_diarization results limit
      else
      case py_get results ''transcripts'' (JList [JDict []]) of Inl e \<Rightarrow> Inl e | Inr ts \<Rightarrow>
      case py_index0 ts of Inl e \<Rightarrow> Inl e | Inr t \<Rightarrow>
      case py_get t ''transcript'' (JStr []) of Inl e \<Rightarrow> Inl e | Inr transcript \<Rightarrow>
        (case transcript of
           JStr s \<Rightarrow> Inr (py_strip (py_slice_to limit s))
         | JList xs \<Rightarrow> Inl AttributeError
         | _ \<Rightarrow> Inl TypeError))"

subsection \<open>The preview as the specification words it\<close>

text \<open>
  A channel is a stream of tokens, each a word or a punctuation mark with its content.
  A word starts a new accumulated word; a punctuation mark is appended to the most recent
  accumulated word when there is one and stands alone otherwise.
\<close>

datatype token_kind = WORD | PUNCTUATION

type_synonym token = "token_kind \<times> string"

fun accumulate :: "string list \<Rightarrow> token \<Rightarrow> string list" where
  "accumulate ws (WORD, c) = ws @ [c]"
| "accumulate ws (PUNCTUATION, c) = (if ws = [] then [c] else butlast ws @ [last ws @ c])"

definition spec_channel_words :: "token list \<Rightarrow> string list" where
  "spec_channel_words toks = foldl accumulate [] toks"

text \<open>
  Joining with single spaces: every element after the first is preceded by one space.
\<close>

definition spec_join :: "string list \<Rightarrow> string" where
  "spec_join ws =
     (case ws of [] \<Rightarrow> [] | w # rest \<Rightarrow> w @ concat (map (\<lambda>v. CHR '' '' # v) rest))"

text \<open>
  Removing the space that precedes a comma or a period: one pass over the text that drops
  a space whenever the next character is a comma or a period.
\<close>

fun spec_normalize :: "string \<Rightarrow> string" where
  "spec_normalize (c # d # cs) =
     (if c = CHR '' '' \<and> (d = CHR '','' \<or> d = CHR ''.'')
      then d # spec_normalize cs
      else c # spec_normalize (d # cs))"
| "spec_normalize cs = cs"

definition spec_channel_text :: "token list \<Rightarrow> string" where
  "spec_channel_text toks = py_strip (spec_normalize (spec_join (spec_channel_words toks)))"

text \<open>
  The channels' texts joined with single spaces (a channel without text contributes
  nothing), stripped and cut to the limit.
\<close>

definition spec_channel_preview :: "token list list \<Rightarrow> int \<Rightarrow> string" where
  "spec_channel_preview streams limit =
     py_slice_to limit
       (py_strip (spec_join (filter (\<lambda>t. t \<noteq> []) (map spec_channel_text streams))))"

text \<open>
  Reading the token streams off a transcription result: an item is a dict whose
  \<^verbatim>\<open>type\<close> is \<^verbatim>\<open>pronunciation\<close> or \<^verbatim>\<open>punctuation\<close> and whose first alternative has a
  string \<^verbatim>\<open>content\<close>; other fields are free.
\<close>

definition decode_item :: "json \<Rightarrow> token option" where
  "decode_item item =
     (case item of
        JDict kvs \<Rightarrow>
          (case (map_of kvs ''type'', map_of kvs ''alternatives'') of
             (Some (JStr t), Some (JList (JDict alt # others))) \<Rightarrow>
               (case map_of alt ''content'' of
                  Some (JStr c) \<Rightarrow>
                    if t = ''pronunciation'' then Some (WORD, c)
                    else if t = ''punctuation'' then Some (PUNCTUATION, c)
                    else None
                | _ \<Rightarrow> None)
           | _ \<Rightarrow> None)
      | _ \<Rightarrow> None)"

definition decode_channel :: "json \<Rightarrow> token list option" where
  "decode_channel channel =
     (case channel of
        JDict kvs \<Rightarrow>
          (case map_of kvs ''items'' of
             Some (JList items) \<Rightarrow> those (map decode_item items)
           | _ \<Rightarrow> None)
      | _ \<Rightarrow> None)"

definition decode_channels :: "json \<Rightarrow> token list list option" where
  "decode_channels results =
     (case results of
        JDict kvs \<Rightarrow>
          (case map_of kvs ''channel_labels'' of
             Some (JDict labels) \<Rightarrow>
               (case map_of labels ''channels'' of
                  Some (JList channels) \<Rightarrow> those (map decode_channel channels)
                | _ \<Rightarrow> None)
           | _ \<Rightarrow> None)
      | _ \<Rightarrow> None)"

text \<open>The \<^verbatim>\<open>type\<close> field that encodes a token kind.\<close>

definition kind_name :: "token_kind \<Rightarrow> string" where
  "kind_name k = (case k of WORD \<Rightarrow> ''pronunciation'' | PUNCTUATION \<Rightarrow> ''punctuation'')"

text \<open>The example of two channels, as a transcription result.\<close>

definition hello_bye_result :: json where
  "hello_bye_result = JDict [(''channel_labels'', JDict [(''channels'', JList [
      JDict [(''channel_label'', JStr ''ch_0''),
             (''items'', JList [
                JDict [(''type'', JStr ''pronunciation''), (''start_time'', JStr ''0.1''),
                       (''alternatives'', JList [JDict [(''content'', JStr ''hello'')]])],
                JDict [(''type'', JStr ''punctuation''),
                       (''alternatives'', JList [JDict [(''content'', JStr '','')]])]])],
      JDict [(''channel_label'', JStr ''ch_1''),
             (''items'', JList [
                JDict [(''type'', JStr ''pronunciation''),
                       (''alternatives'', JList [JDict [(''content'', JStr ''bye'')]])]])]])])]"

text \<open>
  A second result: a word that begins with a comma, a channel without items, and a word
  with spaces around it.
\<close>

definition comma_word_result :: json where
  "comma_word_result = JDict [(''channel_labels'', JDict [(''channels'', JList [
      JDict [(''items'', JList [
                JDict [(''type'', JStr ''pronunciation''),
                       (''alternatives'', JList [JDict [(''content'', JStr ''x'')]])],
                JDict [(''type'', JStr ''pronunciation''),
                       (''alternatives'', JList [JDict [(''content'', JStr '',y'')]])]])],
      JDict [(''items'', JList [])],
      JDict [(''items'', JList [
                JDict [(''type'', JStr ''pronunciation''),
                       (''alternatives'', JList [JDict [(''content'', JStr '' z '')]])]])]])])]"

section \<open>Integers and dates as text\<close>

definition digit_char :: "nat \<Rightarrow> char" where
  "digit_char d = ''0123456789'' ! d"

function show_nat :: "nat \<Rightarrow> string" where
  "show_nat n = (if n < 10 then [digit_char n] else show_nat (n div 10) @ [digit_char (n mod 10)])"
  by pat_completeness auto
termination
  by (relation "measure id") auto

definition show_int :: "int \<Rightarrow> string" where
  "show_int i = (if i < 0 then CHR ''-'' # show_nat (nat (- i)) else show_nat (nat i))"

text \<open>
  CPython refuses to convert between \<^verbatim>\<open>int\<close> and \<^verbatim>\<open>str\<close> beyond 4300 digits
  (ValueError, in both directions). \<open>py_str_int\<close> is \<^verbatim>\<open>str(i)\<close>, as an f-string
  applies it to an integer.
\<close>

definition max_str_digits :: nat where
  "max_str_digits = 4300"

definition py_str_int :: "int \<Rightarrow> exn + string" where
  "py_str_int i =
     (if length (show_nat (nat \<bar>i\<bar>)) > max_str_digits then Inl ValueError else Inr (show_int i))"

text \<open>
  \<^verbatim>\<open>int(s)\<close> on a string, \<open>None\<close> for ValueError: surrounding whitespace is dropped
  (the characters 9 to 13, 32, 133 and 160), then an optional sign, then decimal digits in
  groups separated by single underscores.
\<close>

definition is_int_space :: "char \<Rightarrow> bool" where
  "is_int_space c = (let n = (of_char c :: nat) in (9 \<le> n \<and> n \<le> 13) \<or> n = 32 \<or> n = 133 \<or> n = 160)"

fun digit_groups :: "string \<Rightarrow> bool" where
  "digit_groups [] = False"
| "digit_groups [c] = is_digit c"
| "digit_groups (c # d # cs) =
     (is_digit c \<and> (if d = CHR ''_'' then digit_groups cs else digit_groups (d # cs)))"

definition py_int :: "string \<Rightarrow> int option" where
  "py_int s =
     (let t = rev (dropWhile is_int_space (rev (dropWhile is_int_space s)));
          neg = (t \<noteq> [] \<and> hd t = CHR ''-'');
          body = (if t \<noteq> [] \<and> (hd t = CHR ''-'' \<or> hd t = CHR ''+'') then tl t else t);
          ds = filter (\<lambda>c. c \<noteq> CHR ''_'') body
      in if \<not> digit_groups body \<or> length ds > max_str_digits then None
         else Some (if neg then - int (digits_value ds) else int (digits_value ds)))"

text \<open>
  The proleptic Gregorian calendar: the civil date of a day number counted from
  1970-01-01, as \<open>(year, month, day)\<close>.
\<close>

definition civil_from_days :: "int \<Rightarrow> int \<times> int \<times> int" where
  "civil_from_days z =
     (let z' = z + 719468;
          era = z' div 146097;
          doe = z' mod 146097;
          yoe = (doe - doe div 1460 + doe div 36524 - doe div 146096) div 365;
          doy = doe - (365 * yoe + yoe div 4 - yoe div 100);
          mp = (5 * doy + 2) div 153;
          d = doy - (153 * mp + 2) div 5 + 1;
          m = (if mp < 10 then mp + 3 else mp - 9);
          y = yoe + era * 400 + (if m \<le> 2 then 1 else 0)
      in (y, m, d))"

definition pad2 :: "int \<Rightarrow> string" where
  "pad2 n = (if n < 10 then CHR ''0'' # show_nat (nat n) else show_nat (nat n))"

text \<open>
  A \<^verbatim>\<open>datetime\<close> is modelled by its second count from 1970-01-01T00:00:00 (microseconds
  are not printed by any format the module uses); the valid values are the years 1 to 9999.
  The three \<^verbatim>\<open>strftime\<close> formats of the module, as glibc prints them (\<^verbatim>\<open>%Y\<close> is not
  padded): \<^verbatim>\<open>%Y/%m/%d\<close>, \<^verbatim>\<open>%Y%m%dT%H:%M\<close> and \<^verbatim>\<open>%Y-%m-%d %H:%M:%S UTC\<close>.
\<close>

definition datetime_min :: int where
  "datetime_min = - 62135596800"

definition datetime_max :: int where
  "datetime_max = 253402300799"

definition fmt_day :: "int \<Rightarrow> string" where
  "fmt_day t = (case civil_from_days (t div 86400) of (y, m, d) \<Rightarrow>
      show_int y @ ''/'' @ pad2 m @ ''/'' @ pad2 d)"

definition fmt_time :: "int \<Rightarrow> string" where
  "fmt_time t = (case civil_from_days (t div 86400) of (y, m, d) \<Rightarrow>
      show_int y @ pad2 m @ pad2 d @ ''T'' @ pad2 (t mod 86400 div 3600)
        @ '':'' @ pad2 (t mod 3600 div 60))"

definition fmt_expired :: "int \<Rightarrow> string" where
  "fmt_expired t = (case civil_from_days (t div 86400) of (y, m, d) \<Rightarrow>
      show_int y @ ''-'' @ pad2 m @ ''-'' @ pad2 d @ '' '' @ pad2 (t mod 86400 div 3600)
        @ '':'' @ pad2 (t mod 3600 div 60) @ '':'' @ pad2 (t mod 60) @ '' UTC'')"

text \<open>
  \<^verbatim>\<open>datetime.fromtimestamp(t)\<close> for an integer \<open>t\<close>, in a process whose local time is UTC
  (as in the Lambda runtime), on 64-bit Linux: a timestamp outside \<^verbatim>\<open>time_t\<close> raises
  OverflowError, one whose year the C library cannot hold raises OSError, and one outside
  the years 1 to 9999 (or within the first day of year 1) raises ValueError.
\<close>

definition fromtimestamp :: "int \<Rightarrow> exn + int" where
  "fromtimestamp t =
     (if t < - (2 ^ 63) \<or> 2 ^ 63 \<le> t then Inl OverflowError
      else if t < - 67768040609740800 \<or> 67768036191676799 < t then Inl OSError
      else if t < datetime_min + 86400 \<or> datetime_max < t then Inl ValueError
      else Inr t)"

section \<open>Signed links\<close>

definition hex_digit :: "nat \<Rightarrow> char" where
  "hex_digit d = ''0123456789abcdef'' ! d"

definition hex_byte :: "char \<Rightarrow> string" where
  "hex_byte c = [hex_digit (of_char c div 16), hex_digit (of_char c mod 16)]"

text \<open>\<^verbatim>\<open>hexdigest()\<close>: two lowercase hexadecimal digits for each byte of the digest.\<close>

definition hexdigest :: "string \<Rightarrow> string" where
  "hexdigest bytes = concat (map hex_byte bytes)"

text \<open>
  The message \<^verbatim>\<open>f"{bucket}:{key}:{expires}"\<close> and its signature
  \<^verbatim>\<open>hmac.new(secret_key.encode(), message.encode(), hashlib.sha256).hexdigest()\<close>; both
  \<^verbatim>\<open>generate_signed_url\<close> and \<^verbatim>\<open>verify_signature\<close> compute them, the first with the
  decimal text of an integer, the second with the text it is given.
\<close>

definition link_message :: "string \<Rightarrow> string \<Rightarrow> string \<Rightarrow> string" where
  "link_message bucket key expires = bucket @ '':'' @ key @ '':'' @ expires"

definition link_signature :: "pylib \<Rightarrow> string \<Rightarrow> string \<Rightarrow> string \<Rightarrow> string \<Rightarrow> string" where
  "link_signature lib secret_key bucket key expires =
     hexdigest (hmac_sha256 lib secret_key (link_message bucket key expires))"

text \<open>
  \<^verbatim>\<open>generate_signed_url\<close>; \<open>now\<close> is \<^verbatim>\<open>int(time.time())\<close>. The result is the URL
  (or the exception of the integer formatting).
\<close>

definition generate_signed_url ::
  "pylib \<Rightarrow> int \<Rightarrow> string \<Rightarrow> string \<Rightarrow> string \<Rightarrow> string \<Rightarrow> int \<Rightarrow> exn + string" where
  "generate_signed_url lib now redirect_api_url bucket key secret_key validity_hours =
     (let expires = now + validity_hours * 3600 in
      case py_str_int expires of Inl e \<Rightarrow> Inl e | Inr expires_text \<Rightarrow>
        (let signature = link_signature lib secret_key bucket key expires_text;
             encoded_key = quote lib key
         in Inr (redirect_api_url @ ''/voicemail/'' @ bucket @ ''/'' @ encoded_key
                 @ ''?expires='' @ expires_text @ ''&signature='' @ signature)))"

text \<open>
  \<^verbatim>\<open>hmac.compare_digest\<close> on two strings raises TypeError unless both are ASCII, and
  otherwise tells whether they are equal.
\<close>

definition is_ascii :: "string \<Rightarrow> bool" where
  "is_ascii s = list_all (\<lambda>c. (of_char c :: nat) < 128) s"

definition compare_digest :: "string \<Rightarrow> string \<Rightarrow> exn + bool" where
  "compare_digest a b = (if is_ascii a \<and> is_ascii b then Inr (a = b) else Inl TypeError)"

definition verify_signature ::
  "pylib \<Rightarrow> string \<Rightarrow> string \<Rightarrow> string \<Rightarrow> string \<Rightarrow> string \<Rightarrow> exn + bool" where
  "verify_signature lib bucket key expires signature secret_key =
     compare_digest signature (link_signature lib secret_key bucket key expires)"

section \<open>Collaborators\<close>

text \<open>
  The calls the module makes to the object store, the transcription service and the mail
  service, and its sleeps, in the order they happen. A \<^verbatim>\<open>StartTranscriptionJob\<close> request
  carries the job name, the media URI, the language, the media format when one was set, and
  whether channel identification (rather than speaker labels) was asked for.
\<close>

record start_request =
  req_job_name :: string
  req_media_uri :: string
  req_language_code :: string
  req_media_format :: "string option"
  req_channel_identification :: bool

text \<open>
  What \<^verbatim>\<open>send_email_with_recording\<close> is given; subject and bodies of the message are
  functions of these.
\<close>

record email_request =
  mail_sender :: string
  mail_recipient :: json
  mail_caller_number :: json
  mail_preview :: string
  mail_redirect_url :: string
  mail_recipient_name :: json
  mail_duration :: pyfloat

datatype call =
    HeadObject string string
  | GeneratePresignedUrl string string
  | GetObject string string
  | UrlOpen string
  | StartTranscriptionJob start_request
  | GetTranscriptionJob string
  | SendEmail email_request
  | Sleep rat

fun is_collaborator_call :: "call \<Rightarrow> bool" where
  "is_collaborator_call (Sleep s) = False"
| "is_collaborator_call _ = True"

text \<open>
  The world outside the module. Every answer may depend on the calls made so far, so a
  service may change its answer between two identical calls. \<open>clock\<close> is
  \<^verbatim>\<open>int(time.time())\<close> and \<open>utcnow\<close> is \<^verbatim>\<open>datetime.utcnow()\<close> as a second count;
  \<open>client_init service region\<close> is the exception of \<^verbatim>\<open>boto3.client\<close>, if any;
  \<open>sts_region\<close> and \<open>session_region\<close> are the regions boto3 reports (None also when the
  lookup raises); an object-store or job answer \<open>ClientError code\<close> carries the code of
  the error response; \<open>fetch_json_body\<close> is the JSON document behind a
  \<^verbatim>\<open>GetObject\<close> or \<^verbatim>\<open>UrlOpen\<close>, or the exception of reading or parsing it.
\<close>

record world =
  environ :: "string \<Rightarrow> string option"
  clock :: "call list \<Rightarrow> int"
  utcnow :: "call list \<Rightarrow> int"
  client_init :: "string \<Rightarrow> string \<Rightarrow> exn option"
  sts_region :: "string option"
  session_region :: "string option"
  head_object :: "call list \<Rightarrow> string \<Rightarrow> string \<Rightarrow> exn option"
  presigned_url :: "call list \<Rightarrow> string \<Rightarrow> string \<Rightarrow> exn + string"
  start_job :: "call list \<Rightarrow> start_request \<Rightarrow> exn option"
  get_job :: "call list \<Rightarrow> string \<Rightarrow> exn + json"
  fetch_json_body :: "call list \<Rightarrow> call \<Rightarrow> exn + json"
  send_email :: "call list \<Rightarrow> email_request \<Rightarrow> exn + json"

section \<open>Link resolution\<close>

text \<open>
  The Function URL event: \<^verbatim>\<open>rawPath\<close> is a string when present, and
  \<^verbatim>\<open>queryStringParameters\<close>, when present, maps strings to strings.
\<close>

record url_event =
  rawPath :: "string option"
  queryStringParameters :: "(string \<times> string) list option"

record http_response =
  statusCode :: int
  headers :: "(string \<times> string) list"
  body :: "string option"

definition html_response :: "int \<Rightarrow> string \<Rightarrow> http_response" where
  "html_response code text =
     \<lparr> statusCode = code, headers = [(''Content-Type'', ''text/html'')], body = Some text \<rparr>"

definition invalid_path_response :: http_response where
  "invalid_path_response = html_response 404 ''<h1>404 Not Found</h1><p>Invalid path</p>''"

definition missing_bucket_response :: http_response where
  "missing_bucket_response =
     html_response 400 ''<h1>400 Bad Request</h1><p>Missing bucket or key</p>''"

definition missing_parameters_response :: http_response where
  "missing_parameters_response =
     html_response 400 ''<h1>400 Bad Request</h1><p>Missing required parameters</p>''"

definition expired_response :: "string \<Rightarrow> http_response" where
  "expired_response expires_date =
     html_response 403 (''<h1>403 Forbidden</h1><p>This link expired on '' @ expires_date
        @ ''.</p><p>Please contact support for a new link.</p>'')"

definition invalid_expiration_response :: http_response where
  "invalid_expiration_response =
     html_response 400 ''<h1>400 Bad Request</h1><p>Invalid expiration timestamp</p>''"

definition configuration_error_response :: http_response where
  "configuration_error_response =
     html_response 500 ''<h1>500 Internal Server Error</h1><p>Server configuration error</p>''"

definition invalid_signature_response :: http_response where
  "invalid_signature_response =
     html_response 403
       ''<h1>403 Forbidden</h1><p>Invalid signature. This link may have been tampered with.</p>''"

definition recording_not_found_response :: http_response where
  "recording_not_found_response =
     html_response 404
       ''<h1>404 Not Found</h1><p>Recording not found. It may have been deleted.</p>''"

definition redirect_response :: "string \<Rightarrow> http_response" where
  "redirect_response presigned =
     \<lparr> statusCode = 302,
       headers = [(''Location'', presigned),
                  (''Cache-Control'', ''no-cache, no-store, must-revalidate'')],
       body = None \<rparr>"

definition failed_response :: http_response where
  "failed_response =
     html_response 500 ''<h1>500 Internal Server Error</h1><p>Failed to generate URL</p>''"

text \<open>
  The first part of \<^verbatim>\<open>handle_url_generation\<close>: the path and the two query parameters.
  The result is the early response, or bucket, encoded key, \<^verbatim>\<open>expires\<close> and
  \<^verbatim>\<open>signature\<close>.
\<close>

definition parse_link_request ::
  "url_event \<Rightarrow> http_response + (string \<times> string \<times> string \<times> string)" where
  "parse_link_request event =
     (let raw_path = (case rawPath event of None \<Rightarrow> [] | Some p \<Rightarrow> p);
          query_parameters = (case queryStringParameters event of None \<Rightarrow> [] | Some q \<Rightarrow> q)
      in if take 11 raw_path \<noteq> ''/voicemail/'' then Inl invalid_path_response
         else
           (let path_after_voicemail = drop 11 raw_path in
            if path_after_voicemail = [] \<or> CHR ''/'' \<notin> set path_after_voicemail
            then Inl missing_bucket_response
            else
              (let bucket = takeWhile (\<lambda>c. c \<noteq> CHR ''/'') path_after_voicemail;
                   key_encoded = tl (dropWhile (\<lambda>c. c \<noteq> CHR ''/'') path_after_voicemail)
               in case (map_of query_parameters ''expires'',
                        map_of query_parameters ''signature'') of
                    (Some expires, Some signature) \<Rightarrow>
                      if expires = [] \<or> signature = [] then Inl missing_parameters_response
                      else Inr (bucket, key_encoded, expires, signature)
                  | _ \<Rightarrow> Inl missing_parameters_response)))"

text \<open>
  The expiration check, with \<open>now = int(time.time())\<close>: \<open>None\<close> lets the request
  through. The \<^verbatim>\<open>except ValueError\<close> also catches the ValueError of the date
  conversion; any other exception leaves the block.
\<close>

definition check_expiration :: "int \<Rightarrow> string \<Rightarrow> (exn + http_response) option" where
  "check_expiration now expires =
     (case py_int expires of
        None \<Rightarrow> Some (Inr invalid_expiration_response)
      | Some expires_timestamp \<Rightarrow>
          if now > expires_timestamp then
            (case fromtimestamp expires_timestamp of
               Inl e \<Rightarrow> if e = ValueError then Some (Inr invalid_expiration_response)
                        else Some (Inl e)
             | Inr t \<Rightarrow> Some (Inr (expired_response (fmt_expired t))))
          else None)"

text \<open>
  Everything up to and including the signature check. It reads the event, the clock and
  the environment only. The result is a response (or exception), or the bucket and key that
  passed the check.
\<close>

definition check_link ::
  "pylib \<Rightarrow> (string \<Rightarrow> string option) \<Rightarrow> int \<Rightarrow> url_event
     \<Rightarrow> (exn + http_response) + (string \<times> string)" where
  "check_link lib env now event =
     (case parse_link_request event of
        Inl r \<Rightarrow> Inl (Inr r)
      | Inr (bucket, key_encoded, expires, signature) \<Rightarrow>
          (let key = unquote lib key_encoded in
           case check_expiration now expires of
             Some r \<Rightarrow> Inl r
           | None \<Rightarrow>
               (let signing_secret = (case env ''SIGNING_SECRET'' of None \<Rightarrow> [] | Some s \<Rightarrow> s)
                in if signing_secret = [] then Inl (Inr configuration_error_response)
                   else
                     (case verify_signature lib bucket key expires signature signing_secret of
                        Inl e \<Rightarrow> Inl (Inl e)
                      | Inr ok \<Rightarrow>
                          if \<not> ok then Inl (Inr invalid_signature_response)
                          else Inr (bucket, key)))))"

text \<open>
  The rest of the handler: the client, the existence check and the presigned URL. A
  \<^verbatim>\<open>ClientError\<close> of \<^verbatim>\<open>head_object\<close> with code 404 is answered, any other exception
  is raised again.
\<close>

definition redirect_to_object ::
  "world \<Rightarrow> string \<Rightarrow> string \<Rightarrow> (exn + http_response) \<times> call list" where
  "redirect_to_object w bucket key =
     (let region = (case environ w ''AWS_REGION'' of None \<Rightarrow> ''us-east-1'' | Some r \<Rightarrow> r) in
      case client_init w ''s3'' region of
        Some e \<Rightarrow> (Inl e, [])
      | None \<Rightarrow>
          (case head_object w [] bucket key of
             Some e \<Rightarrow>
               if e = ClientError ''404'' then (Inr recording_not_found_response, [HeadObject bucket key])
               else (Inl e, [HeadObject bucket key])
           | None \<Rightarrow>
               (case presigned_url w [HeadObject bucket key] bucket key of
                  Inl e \<Rightarrow> (Inl e, [HeadObject bucket key, GeneratePresignedUrl bucket key])
                | Inr url \<Rightarrow>
                    (Inr (redirect_response url),
                     [HeadObject bucket key, GeneratePresignedUrl bucket key]))))"

definition handle_url_generation_body ::
  "pylib \<Rightarrow> world \<Rightarrow> url_event \<Rightarrow> (exn + http_response) \<times> call list" where
  "handle_url_generation_body lib w event =
     (case check_link lib (environ w) (clock w []) event of
        Inl r \<Rightarrow> (r, [])
      | Inr (bucket, key) \<Rightarrow> redirect_to_object w bucket key)"

text \<open>
  \<^verbatim>\<open>handle_url_generation\<close>: the outer \<^verbatim>\<open>except Exception\<close> answers every exception
  with the 500 response. The result is the response and the calls made.
\<close>

definition handle_url_generation ::
  "pylib \<Rightarrow> world \<Rightarrow> url_event \<Rightarrow> http_response \<times> call list" where
  "handle_url_generation lib w event =
     (case handle_url_generation_body lib w event of
        (Inl e, calls) \<Rightarrow> (failed_response, calls)
      | (Inr r, calls) \<Rightarrow> (r, calls))"

text \<open>The position of a hexadecimal digit, the inverse of \<open>hex_digit\<close>.\<close>

definition hex_value :: "char \<Rightarrow> nat" where
  "hex_value c = length (takeWhile (\<lambda>x. x \<noteq> c) ''0123456789abcdef'')"

text \<open>
  A world for evaluated examples: the clock stands still, the environment is given, an
  object exists when \<open>present\<close> says so (404 otherwise), every client can be made, a
  transcription job is never finished, and the mail service accepts every message.
\<close>

definition test_world :: "int \<Rightarrow> (string \<Rightarrow> string option) \<Rightarrow> (string \<Rightarrow> bool) \<Rightarrow> world" where
  "test_world now env present =
     \<lparr> environ = env,
       clock = (\<lambda>calls. now),
       utcnow = (\<lambda>calls. now),
       client_init = (\<lambda>service region. None),
       sts_region = None,
       session_region = None,
       head_object = (\<lambda>calls bucket key. if present key then None else Some (ClientError ''404'')),
       presigned_url = (\<lambda>calls bucket key. Inr (''https://s3.test/'' @ bucket @ ''/'' @ key)),
       start_job = (\<lambda>calls request. None),
       get_job = (\<lambda>calls name. Inr (JDict [(''TranscriptionJob'',
                     JDict [(''TranscriptionJobStatus'', JStr ''IN_PROGRESS'')])])),
       fetch_json_body = (\<lambda>calls c. Inr (JDict [])),
       send_email = (\<lambda>calls request. Inr (JDict [(''MessageId'', JStr ''m-1'')])) \<rparr>"

text \<open>An environment that holds the signing secret and nothing else.\<close>

definition secret_env :: "string \<Rightarrow> string \<Rightarrow> string option" where
  "secret_env secret name = (if name = ''SIGNING_SECRET'' then Some secret else None)"


text \<open>
  The request of the issued link with its \<^verbatim>\<open>expires\<close> parameter replaced, the
  signature kept.
\<close>

definition tampered_event :: "string \<Rightarrow> url_event" where
  "tampered_event expires = \<lparr> rawPath = Some ''/voicemail/b/k'',
       queryStringParameters = Some [(''expires'', expires),
                                     (''signature'', ''733a623a6b3a34363030'')] \<rparr>"

section \<open>Searching the recording\<close>

text \<open>An f-string applied to a value: a string is inserted as it is.\<close>

definition py_format :: "pylib \<Rightarrow> json \<Rightarrow> string" where
  "py_format lib v = (case v of JStr s \<Rightarrow> s | _ \<Rightarrow> str_of lib v)"

text \<open>One candidate of \<^verbatim>\<open>generate_s3_uris_with_time_window\<close>.\<close>

record location =
  loc_key :: string
  loc_uri :: string
  loc_timestamp :: string
  offset_minutes :: int

text \<open>
  The body of the loop for one offset, with \<open>dt = now + timedelta(minutes=offset)\<close>
  already computed.
\<close>

definition candidate :: "pylib \<Rightarrow> string \<Rightarrow> string \<Rightarrow> json \<Rightarrow> int \<Rightarrow> int \<Rightarrow> location" where
  "candidate lib bucket prefix initial_contact_id now offset =
     (let dt = now + 60 * offset;
          date_path = fmt_day dt;
          timestamp = fmt_time dt;
          filename = py_format lib initial_contact_id @ ''_'' @ timestamp @ ''_UTC.wav'';
          key = (if prefix \<noteq> [] then prefix @ ''/ivr/'' @ date_path @ ''/'' @ filename
                 else ''ivr/'' @ date_path @ ''/'' @ filename);
          uri = ''s3://'' @ bucket @ ''/'' @ key
      in \<lparr> loc_key = key, loc_uri = uri, loc_timestamp = timestamp, offset_minutes = offset \<rparr>)"

text \<open>
  The loop over the offsets: adding the \<^verbatim>\<open>timedelta\<close> raises OverflowError when the
  result leaves the years 1 to 9999.
\<close>

fun candidates :: "pylib \<Rightarrow> string \<Rightarrow> string \<Rightarrow> json \<Rightarrow> int \<Rightarrow> int list \<Rightarrow> exn + location list" where
  "candidates lib bucket prefix initial_contact_id now [] = Inr []"
| "candidates lib bucket prefix initial_contact_id now (offset # rest) =
     (if now + 60 * offset < datetime_min \<or> datetime_max < now + 60 * offset
      then Inl OverflowError
      else (case candidates lib bucket prefix initial_contact_id now rest of
              Inl e \<Rightarrow> Inl e
            | Inr s3_uris \<Rightarrow>
                Inr (candidate lib bucket prefix initial_contact_id now offset # s3_uris)))"

text \<open>\<^verbatim>\<open>range(-minutes_offset, minutes_offset + 1)\<close> is \<open>[- minutes_offset..minutes_offset]\<close>.\<close>

definition generate_s3_uris_with_time_window ::
  "pylib \<Rightarrow> string \<Rightarrow> string \<Rightarrow> json \<Rightarrow> int \<Rightarrow> int \<Rightarrow> exn + location list" where
  "generate_s3_uris_with_time_window lib bucket prefix initial_contact_id now minutes_offset =
     candidates lib bucket prefix initial_contact_id now [- minutes_offset..minutes_offset]"

text \<open>
  The inner loop of \<^verbatim>\<open>find_recording_in_s3\<close> over the sorted candidates, with the calls
  made so far: the first object that exists is returned; a \<^verbatim>\<open>ClientError\<close> with code
  404 moves on to the next candidate; any other exception is raised.
\<close>

fun probe_locations ::
  "world \<Rightarrow> string \<Rightarrow> location list \<Rightarrow> call list \<Rightarrow> (exn + location option) \<times> call list" where
  "probe_locations w bucket [] calls = (Inr None, calls)"
| "probe_locations w bucket (loc # rest) calls =
     (case head_object w calls bucket (loc_key loc) of
        None \<Rightarrow> (Inr (Some loc), calls @ [HeadObject bucket (loc_key loc)])
      | Some e \<Rightarrow>
          if e = ClientError ''404''
          then probe_locations w bucket rest (calls @ [HeadObject bucket (loc_key loc)])
          else (Inl e, calls @ [HeadObject bucket (loc_key loc)]))"

text \<open>
  The outer loop over the window sizes. \<^verbatim>\<open>list.sort\<close> is stable, as \<open>sort_key\<close> is.
  After a window without a hit the code sleeps half a second, except after the last one.
\<close>

fun search_windows ::
  "pylib \<Rightarrow> world \<Rightarrow> string \<Rightarrow> string \<Rightarrow> json \<Rightarrow> int \<Rightarrow> int list \<Rightarrow> call list
     \<Rightarrow> (exn + location option) \<times> call list" where
  "search_windows lib w bucket prefix initial_contact_id now [] calls = (Inr None, calls)"
| "search_windows lib w bucket prefix initial_contact_id now (window_minutes # rest) calls =
     (case generate_s3_uris_with_time_window lib bucket prefix initial_contact_id now
             window_minutes of
        Inl e \<Rightarrow> (Inl e, calls)
      | Inr s3_uris \<Rightarrow>
          (case probe_locations w bucket
                  (sort_key (\<lambda>x. \<bar>offset_minutes x\<bar>) s3_uris) calls of
             (Inl e, calls') \<Rightarrow> (Inl e, calls')
           | (Inr (Some loc), calls') \<Rightarrow> (Inr (Some loc), calls')
           | (Inr None, calls') \<Rightarrow>
               if window_minutes > 1
               then search_windows lib w bucket prefix initial_contact_id now rest
                      (calls' @ [Sleep (1 / 2)])
               else search_windows lib w bucket prefix initial_contact_id now rest calls'))"

definition MAX_TIME_WINDOW_MINUTES :: int where
  "MAX_TIME_WINDOW_MINUTES = 5"

text \<open>
  \<^verbatim>\<open>find_recording_in_s3\<close>, started after the calls \<open>calls\<close>;
  \<^verbatim>\<open>range(MAX_TIME_WINDOW_MINUTES, 0, -1)\<close> is the reversed \<open>[1..MAX_TIME_WINDOW_MINUTES]\<close>.
\<close>

definition find_recording_in_s3 ::
  "pylib \<Rightarrow> world \<Rightarrow> string \<Rightarrow> string \<Rightarrow> json \<Rightarrow> call list
     \<Rightarrow> (exn + location option) \<times> call list" where
  "find_recording_in_s3 lib w bucket prefix initial_contact_id calls =
     search_windows lib w bucket prefix initial_contact_id (utcnow w calls)
       (rev [1..MAX_TIME_WINDOW_MINUTES]) calls"



text \<open>
  A request with a well-formed path, an \<^verbatim>\<open>expires\<close> in the future and a signature
  that is one non-ASCII character.
\<close>

definition non_ascii_event :: url_event where
  "non_ascii_event = \<lparr> rawPath = Some ''/voicemail/b/k'',
       queryStringParameters = Some [(''expires'', ''4700''), (''signature'', [CHR 0xE9])] \<rparr>"

section \<open>Theorems\<close>

lemma scan_end_time_skip:
  "\<forall>x\<in>set xs. no_end_time x \<Longrightarrow> scan_end_time lib (xs @ ys) = scan_end_time lib ys"
proof (induction xs)
  case Nil
  show ?case by simp
next
  case (Cons x xs)
  from Cons.prems have "no_end_time x" by simp
  then obtain kvs where x: "x = JDict kvs"
    and nt: "case map_of kvs ''end_time'' of None \<Rightarrow> True | Some v \<Rightarrow> \<not> truthy v"
    by (cases x) (simp_all add: no_end_time_def)
  from nt have "\<not> truthy (case map_of kvs ''end_time'' of None \<Rightarrow> JNull | Some v \<Rightarrow> v)"
    by (cases "map_of kvs ''end_time''") simp_all
  with x Cons show ?case by simp
qed

lemma duration_last_end_time:
  assumes items: "py_get results ''items'' (JList []) = Inr (JList (pre @ JDict it # post))"
    and post: "\<forall>x\<in>set post. no_end_time x"
    and v: "map_of it ''end_time'' = Some v" and tv: "truthy v"
  shows "duration_body lib results = py_float lib v"
proof -
  have "scan_end_time lib (rev (pre @ JDict it # post))
        = scan_end_time lib (rev post @ (JDict it # rev pre))"
    by simp
  also have "\<dots> = scan_end_time lib (JDict it # rev pre)"
    using post by (intro scan_end_time_skip) simp
  also have "\<dots> = py_float lib v"
    using v tv by simp
  finally show ?thesis
    using items by (simp add: duration_body_def)
qed

lemma duration_no_end_time:
  assumes items: "py_get results ''items'' (JList []) = Inr (JList xs)"
    and none: "\<forall>x\<in>set xs. no_end_time x"
  shows "duration_body lib results = Inr (Finite 0)"
proof -
  have "scan_end_time lib (rev xs @ []) = scan_end_time lib []"
    using none by (intro scan_end_time_skip) simp
  then show ?thesis
    using items by (simp add: duration_body_def)
qed

text \<open>
  C6. \<^verbatim>\<open>get_actual_recording_duration\<close> never raises: it always returns a float, and
  returns \<open>0.0\<close> whenever its body raises (malformed input of any kind). When the last item
  with a (truthy) \<^verbatim>\<open>end_time\<close> is followed only by items without one, the result is the
  \<^verbatim>\<open>float\<close> of that end-time, or \<open>0.0\<close> if it does not convert; when no item has an
  end-time the result is \<open>0.0\<close>.
\<close>

theorem duration_last_end_time_or_zero:
  "(\<exists>d. get_actual_recording_duration lib results = Inr d)
   \<and> (\<forall>e. duration_body lib results = Inl e
          \<longrightarrow> get_actual_recording_duration lib results = Inr (Finite 0))
   \<and> (\<forall>pre it post v.
         py_get results ''items'' (JList []) = Inr (JList (pre @ JDict it # post))
         \<and> (\<forall>x\<in>set post. no_end_time x)
         \<and> map_of it ''end_time'' = Some v \<and> truthy v
         \<longrightarrow> get_actual_recording_duration lib results
             = Inr (case py_float lib v of Inl e \<Rightarrow> Finite 0 | Inr d \<Rightarrow> d))
   \<and> (\<forall>xs. py_get results ''items'' (JList []) = Inr (JList xs)
         \<and> (\<forall>x\<in>set xs. no_end_time x)
         \<longrightarrow> get_actual_recording_duration lib results = Inr (Finite 0))"
proof (intro conjI allI impI)
  show "\<exists>d. get_actual_recording_duration lib results = Inr d"
    by (cases "duration_body lib results") (simp_all add: get_actual_recording_duration_def)
next
  fix e assume "duration_body lib results = Inl e"
  then show "get_actual_recording_duration lib results = Inr (Finite 0)"
    by (simp add: get_actual_recording_duration_def)
next
  fix pre it post v
  assume h: "py_get results ''items'' (JList []) = Inr (JList (pre @ JDict it # post))
         \<and> (\<forall>x\<in>set post. no_end_time x)
         \<and> map_of it ''end_time'' = Some v \<and> truthy v"
  then have "duration_body lib results = py_float lib v"
    by (intro duration_last_end_time) auto
  then show "get_actual_recording_duration lib results
             = Inr (case py_float lib v of Inl e \<Rightarrow> Finite 0 | Inr d \<Rightarrow> d)"
    by (cases "py_float lib v") (simp_all add: get_actual_recording_duration_def)
next
  fix xs
  assume h: "py_get results ''items'' (JList []) = Inr (JList xs)
         \<and> (\<forall>x\<in>set xs. no_end_time x)"
  then have "duration_body lib results = Inr (Finite 0)"
    by (intro duration_no_end_time) auto
  then show "get_actual_recording_duration lib results = Inr (Finite 0)"
    by (simp add: get_actual_recording_duration_def)
qed

theorem duration_last_end_time_or_zero_witness:
  "get_actual_recording_duration test_lib
     (JDict [(''items'', JList [JDict [(''end_time'', JStr ''3.1'')],
                                JDict [(''end_time'', JStr ''12.4'')],
                                JDict [(''type'', JStr ''punctuation'')]])])
   = Inr (Finite (62 / 5))
   \<and> get_actual_recording_duration test_lib
     (JDict [(''items'', JList [JDict [(''type'', JStr ''punctuation'')]])])
   = Inr (Finite 0)
   \<and> duration_body test_lib (JDict [(''items'', JInt 7)]) = Inl TypeError
   \<and> get_actual_recording_duration test_lib (JDict [(''items'', JInt 7)]) = Inr (Finite 0)"
proof (intro conjI)
  let ?r = "JDict [(''items'', JList [JDict [(''end_time'', JStr ''3.1'')],
                                JDict [(''end_time'', JStr ''12.4'')],
                                JDict [(''type'', JStr ''punctuation'')]])]"
  have f: "plain_decimal ''12.4'' = Some (Finite (62 / 5))"
    by (simp add: plain_decimal_def is_digit_def digits_value_def)
  from duration_last_end_time_or_zero [of test_lib ?r, THEN conjunct2, THEN conjunct2,
      THEN conjunct1, rule_format,
      of "[JDict [(''end_time'', JStr ''3.1'')]]" "[(''end_time'', JStr ''12.4'')]"
         "[JDict [(''type'', JStr ''punctuation'')]]" "JStr ''12.4''"]
  show "get_actual_recording_duration test_lib ?r = Inr (Finite (62 / 5))"
    by (simp add: no_end_time_def test_lib_def f)
next
  let ?r = "JDict [(''items'', JList [JDict [(''type'', JStr ''punctuation'')]])]"
  from duration_last_end_time_or_zero [of test_lib ?r, THEN conjunct2, THEN conjunct2,
      THEN conjunct2, rule_format, of "[JDict [(''type'', JStr ''punctuation'')]]"]
  show "get_actual_recording_duration test_lib ?r = Inr (Finite 0)"
    by (simp add: no_end_time_def)
next
  show b: "duration_body test_lib (JDict [(''items'', JInt 7)]) = Inl TypeError"
    by (simp add: duration_body_def)
  from duration_last_end_time_or_zero [of test_lib "JDict [(''items'', JInt 7)]",
      THEN conjunct2, THEN conjunct1, rule_format, OF b]
  show "get_actual_recording_duration test_lib (JDict [(''items'', JInt 7)]) = Inr (Finite 0)" .
qed

lemma decode_itemD:
  assumes "decode_item item = Some (k, c)"
  shows "\<exists>kvs alt others. item = JDict kvs
          \<and> map_of kvs ''type'' = Some (JStr (kind_name k))
          \<and> map_of kvs ''alternatives'' = Some (JList (JDict alt # others))
          \<and> map_of alt ''content'' = Some (JStr c)"
  using assms
  by (auto simp: decode_item_def kind_name_def
           split: json.splits option.splits list.splits if_splits)

lemma channel_items_step:
  assumes "decode_item item = Some tok"
  shows "channel_items lib (item # rest) (map JStr ws) = channel_items lib rest (map JStr (accumulate ws tok))"
proof -
  obtain k c where tok: "tok = (k, c)" by (cases tok)
  from decode_itemD [OF assms [unfolded tok]]
  obtain kvs alt others where item: "item = JDict kvs"
    and ty: "map_of kvs ''type'' = Some (JStr (kind_name k))"
    and al: "map_of kvs ''alternatives'' = Some (JList (JDict alt # others))"
    and co: "map_of alt ''content'' = Some (JStr c)"
    by blast
  show ?thesis
  proof (cases k)
    case WORD
    then show ?thesis using item ty al co tok by (simp add: kind_name_def)
  next
    case PUNCTUATION
    then show ?thesis using item ty al co tok
      by (simp add: kind_name_def last_map map_butlast)
  qed
qed

lemma those_map_Cons:
  "those (map f (x # xs)) = Some ys \<longleftrightarrow>
     (\<exists>y ys'. f x = Some y \<and> those (map f xs) = Some ys' \<and> ys = y # ys')"
  by (auto split: option.splits)

lemma channel_items_decoded:
  "those (map decode_item items) = Some toks \<Longrightarrow>
   channel_items lib items (map JStr ws) = Inr (map JStr (foldl accumulate ws toks))"
proof (induction items arbitrary: ws toks)
  case Nil
  then show ?case by simp
next
  case (Cons item rest)
  from Cons.prems obtain t ts where t: "decode_item item = Some t"
    and ts: "those (map decode_item rest) = Some ts" and toks: "toks = t # ts"
    unfolding those_map_Cons by blast
  show ?case
    unfolding channel_items_step [OF t] toks using Cons.IH [OF ts] by simp
qed

lemma str_items_strings: "str_items (map JStr ws) = Inr ws"
  by (induction ws) simp_all

lemma decode_channelD:
  assumes "decode_channel channel = Some toks"
  shows "\<exists>kvs items. channel = JDict kvs \<and> map_of kvs ''items'' = Some (JList items)
           \<and> those (map decode_item items) = Some toks"
  using assms by (auto simp: decode_channel_def split: json.splits option.splits)

lemma join_sp_spec_join: "join_sp ws = spec_join ws"
  by (induction ws rule: join_sp.induct) (simp_all add: spec_join_def)

lemma py_replace_pair:
  "a \<noteq> b \<Longrightarrow> py_replace [a, b] [b] (c # d # cs) =
     (if c = a \<and> d = b then b # py_replace [a, b] [b] cs
      else c # py_replace [a, b] [b] (d # cs))"
  by simp

lemma py_replace_other_head:
  "c \<noteq> a \<Longrightarrow> py_replace [a, b] new (c # cs) = c # py_replace [a, b] new cs"
  by simp

lemma py_replace_head_kept:
  "cs \<noteq> [] \<Longrightarrow> hd cs \<noteq> b \<Longrightarrow> py_replace [a, b] new (c # cs) = c # py_replace [a, b] new cs"
  by (cases cs) auto

lemma py_replace_comma_head:
  "d \<noteq> CHR ''.'' \<Longrightarrow> py_replace '' ,'' '','' (d # cs) \<noteq> []
     \<and> hd (py_replace '' ,'' '','' (d # cs)) \<noteq> CHR ''.''"
  by (cases cs) auto

lemma replaces_normalize:
  "py_replace '' .'' ''.'' (py_replace '' ,'' '','' s) = spec_normalize s"
proof (induction s rule: spec_normalize.induct)
  case (1 c d cs)
  show ?case
  proof (cases "c = CHR '' '' \<and> (d = CHR '','' \<or> d = CHR ''.'')")
    case True
    then have ih: "py_replace '' .'' ''.'' (py_replace '' ,'' '','' cs) = spec_normalize cs"
      using 1 by simp
    from True show ?thesis
    proof (elim conjE disjE)
      assume "c = CHR '' ''" "d = CHR '',''"
      then show ?thesis
        using ih by (simp del: py_replace.simps add: py_replace_pair py_replace_other_head)
    next
      assume cd: "c = CHR '' ''" "d = CHR ''.''"
      have "py_replace '' ,'' '','' (c # d # cs) = c # d # py_replace '' ,'' '','' cs"
        using cd by (simp del: py_replace.simps add: py_replace_pair py_replace_other_head)
      then show ?thesis
        using cd ih by (simp del: py_replace.simps add: py_replace_pair)
    qed
  next
    case False
    then have ih: "py_replace '' .'' ''.'' (py_replace '' ,'' '','' (d # cs))
        = spec_normalize (d # cs)"
      using 1 by simp
    from False have r1: "py_replace '' ,'' '','' (c # d # cs) = c # py_replace '' ,'' '','' (d # cs)"
      by (auto simp del: py_replace.simps simp add: py_replace_pair)
    have "py_replace '' .'' ''.'' (c # py_replace '' ,'' '','' (d # cs))
          = c # py_replace '' .'' ''.'' (py_replace '' ,'' '','' (d # cs))"
    proof (cases "c = CHR '' ''")
      case True
      with False have "d \<noteq> CHR ''.''" by simp
      from py_replace_comma_head [OF this, of cs] show ?thesis
        by (intro py_replace_head_kept) auto
    next
      case False
      then show ?thesis by (rule py_replace_other_head)
    qed
    with r1 ih False show ?thesis by (auto simp del: py_replace.simps)
  qed
qed simp_all

lemma channel_loop_step:
  assumes "decode_channel channel = Some toks"
  shows "channel_loop lib (channel # rest) acc =
         channel_loop lib rest (acc @ filter (\<lambda>t. t \<noteq> []) [spec_channel_text toks])"
proof -
  from decode_channelD [OF assms] obtain kvs items where ch: "channel = JDict kvs"
    and it: "map_of kvs ''items'' = Some (JList items)"
    and d: "those (map decode_item items) = Some toks" by blast
  have "channel_items lib items (map JStr []) = Inr (map JStr (spec_channel_words toks))"
    unfolding spec_channel_words_def by (rule channel_items_decoded [OF d])
  then have ci: "channel_items lib items [] = Inr (map JStr (spec_channel_words toks))" by simp
  show ?thesis
    using ch it ci
    by (simp del: py_replace.simps
        add: str_items_strings spec_channel_text_def replaces_normalize join_sp_spec_join Let_def)
qed

lemma channel_loop_decoded:
  "those (map decode_channel channels) = Some streams \<Longrightarrow>
   channel_loop lib channels acc = Inr (acc @ filter (\<lambda>t. t \<noteq> []) (map spec_channel_text streams))"
proof (induction channels arbitrary: acc streams)
  case Nil
  then show ?case by simp
next
  case (Cons channel rest)
  from Cons.prems obtain t ts where t: "decode_channel channel = Some t"
    and ts: "those (map decode_channel rest) = Some ts" and s: "streams = t # ts"
    unfolding those_map_Cons by blast
  show ?case
    unfolding channel_loop_step [OF t] s using Cons.IH [OF ts] by simp
qed

lemma decode_channelsD:
  assumes "decode_channels results = Some streams"
  shows "\<exists>kvs labels channels. results = JDict kvs
           \<and> map_of kvs ''channel_labels'' = Some (JDict labels)
           \<and> map_of labels ''channels'' = Some (JList channels)
           \<and> those (map decode_channel channels) = Some streams"
  using assms by (auto simp: decode_channels_def split: json.splits option.splits)

lemma build_preview_channel_decoded:
  assumes "decode_channels results = Some streams"
  shows "build_preview_channel lib results limit = Inr (spec_channel_preview streams limit)"
proof -
  from decode_channelsD [OF assms] obtain kvs labels channels where r: "results = JDict kvs"
    and l: "map_of kvs ''channel_labels'' = Some (JDict labels)"
    and c: "map_of labels ''channels'' = Some (JList channels)"
    and d: "those (map decode_channel channels) = Some streams" by blast
  from channel_loop_decoded [OF d, where acc = "[]" and lib = lib] r l c show ?thesis
    by (simp add: build_preview_channel_def spec_channel_preview_def join_sp_spec_join)
qed

lemma channel_mode_selected:
  assumes "decode_channels results = Some streams"
  shows "build_transcription_preview lib diar results ''channel'' limit
         = build_preview_channel lib results limit"
proof -
  from decode_channelsD [OF assms] obtain kvs labels channels where r: "results = JDict kvs"
    and l: "map_of kvs ''channel_labels'' = Some (JDict labels)"
    and c: "map_of labels ''channels'' = Some (JList channels)" by blast
  from c have "labels \<noteq> []" by auto
  with r l show ?thesis by (simp add: build_transcription_preview_def)
qed

lemma hello_bye:
  "spec_channel_preview [[(WORD, ''hello''), (PUNCTUATION, '','')], [(WORD, ''bye'')]] 700
   = ''hello, bye''"
  by (simp add: spec_channel_preview_def spec_channel_text_def spec_channel_words_def
      spec_join_def py_strip_def is_space_def py_slice_to_def)

lemma comma_word:
  "spec_channel_preview [[(WORD, ''x''), (WORD, '',y'')], [], [(WORD, '' z '')]] limit
   = py_slice_to limit ''x,y z''"
  by (simp add: spec_channel_preview_def spec_channel_text_def spec_channel_words_def
      spec_join_def py_strip_def is_space_def)

text \<open>
  C5. In channel mode (mode \<^verbatim>\<open>channel\<close>, channel data present) the preview of a
  channel-partitioned token stream is the text the specification describes: in each channel
  a word starts a new accumulated word and a punctuation mark is appended, without a space,
  to the most recent one; the words are joined with single spaces, the space before a comma
  or a period is removed, and the channels' texts are joined with single spaces (a channel
  without text adds nothing; the result is stripped and cut to the limit). The
  specification side is defined on its own: \<open>spec_join\<close> puts one space before each
  element but the first, \<open>spec_normalize\<close> drops each space that a comma or period
  follows. For the channels [WORD hello, PUNCTUATION ","] and [WORD bye] the text is
  "hello, bye".
\<close>

theorem channel_preview_follows_spec:
  "(decode_channels results = Some streams \<longrightarrow>
      build_transcription_preview lib diar results ''channel'' limit
        = Inr (spec_channel_preview streams limit)
      \<and> build_preview_channel lib results limit = Inr (spec_channel_preview streams limit))
   \<and> spec_channel_words [(WORD, a), (PUNCTUATION, p), (WORD, b)] = [a @ p, b]
   \<and> spec_join [u, v, x] = u @ '' '' @ v @ '' '' @ x
   \<and> spec_normalize ''hello ,'' = ''hello,''
   \<and> spec_normalize ''so . then ,'' = ''so. then,''
   \<and> spec_channel_preview [[(WORD, ''hello''), (PUNCTUATION, '','')], [(WORD, ''bye'')]] 700
     = ''hello, bye''
   \<and> spec_channel_preview [[(WORD, ''x''), (WORD, '',y'')], [], [(WORD, '' z '')]] 700
     = ''x,y z''
   \<and> spec_channel_preview [[(WORD, ''x''), (WORD, '',y'')], [], [(WORD, '' z '')]] 3
     = ''x,y''
   \<and> spec_channel_preview [[(WORD, ''x''), (WORD, '',y'')], [], [(WORD, '' z '')]] (- 1)
     = ''x,y ''"
  using channel_mode_selected [where results = results and streams = streams and lib = lib
      and diar = diar and limit = limit]
    build_preview_channel_decoded [where results = results and streams = streams and lib = lib
      and limit = limit] hello_bye
  by (simp add: spec_channel_words_def spec_join_def comma_word py_slice_to_def)

theorem channel_preview_follows_spec_witness:
  "decode_channels hello_bye_result
     = Some [[(WORD, ''hello''), (PUNCTUATION, '','')], [(WORD, ''bye'')]]
   \<and> build_transcription_preview test_lib (\<lambda>r l. Inl RuntimeError) hello_bye_result ''channel'' 700
     = Inr ''hello, bye''
   \<and> build_transcription_preview test_lib (\<lambda>r l. Inl RuntimeError) comma_word_result ''channel'' 700
     = Inr ''x,y z''"
proof -
  have d: "decode_channels hello_bye_result
     = Some [[(WORD, ''hello''), (PUNCTUATION, '','')], [(WORD, ''bye'')]]"
    by (simp add: decode_channels_def decode_channel_def decode_item_def hello_bye_result_def)
  have d': "decode_channels comma_word_result
     = Some [[(WORD, ''x''), (WORD, '',y'')], [], [(WORD, '' z '')]]"
    by (simp add: decode_channels_def decode_channel_def decode_item_def comma_word_result_def)
  from channel_preview_follows_spec [where results = hello_bye_result
      and streams = "[[(WORD, ''hello''), (PUNCTUATION, '','')], [(WORD, ''bye'')]]"
      and lib = test_lib and diar = "\<lambda>r l. Inl RuntimeError" and limit = 700] d
  have 1: "build_transcription_preview test_lib (\<lambda>r l. Inl RuntimeError) hello_bye_result ''channel'' 700
     = Inr ''hello, bye''"
    by simp
  from channel_preview_follows_spec [where results = comma_word_result
      and streams = "[[(WORD, ''x''), (WORD, '',y'')], [], [(WORD, '' z '')]]"
      and lib = test_lib and diar = "\<lambda>r l. Inl RuntimeError" and limit = 700] d'
  have 2: "build_transcription_preview test_lib (\<lambda>r l. Inl RuntimeError) comma_word_result ''channel'' 700
     = Inr ''x,y z''"
    by simp
  from d 1 2 show ?thesis by blast
qed

lemma lt16_cases:
  "(d::nat) < 16 \<Longrightarrow> d = 0 \<or> d = 1 \<or> d = 2 \<or> d = 3 \<or> d = 4 \<or> d = 5 \<or> d = 6 \<or> d = 7
     \<or> d = 8 \<or> d = 9 \<or> d = 10 \<or> d = 11 \<or> d = 12 \<or> d = 13 \<or> d = 14 \<or> d = 15"
  by arith

lemma hex_value_hex_digit: "d < 16 \<Longrightarrow> hex_value (hex_digit d) = d"
  by (drule lt16_cases) (auto simp: hex_value_def hex_digit_def)

lemma hex_digit_ascii: "d < 16 \<Longrightarrow> (of_char (hex_digit d) :: nat) < 128"
  by (drule lt16_cases) (auto simp: hex_digit_def)

lemma of_char_div16: "(of_char c :: nat) div 16 < 16"
proof -
  have "(of_char c :: nat) < 256" by (rule nat_of_char_less_256)
  then show ?thesis by arith
qed

lemma is_ascii_hexdigest: "is_ascii (hexdigest bytes)"
  by (induction bytes)
    (simp_all add: hexdigest_def is_ascii_def hex_byte_def hex_digit_ascii of_char_div16)

lemma hex_byte_inj: assumes "hex_byte a = hex_byte b" shows "a = b"
proof -
  from assms have h: "hex_digit (of_char a div 16) = hex_digit (of_char b div 16)"
    and l: "hex_digit (of_char a mod 16) = hex_digit (of_char b mod 16)"
    by (simp_all add: hex_byte_def)
  from h have "hex_value (hex_digit (of_char a div 16)) = hex_value (hex_digit (of_char b div 16))"
    by simp
  then have h': "(of_char a :: nat) div 16 = of_char b div 16"
    by (simp add: hex_value_hex_digit of_char_div16)
  from l have "hex_value (hex_digit (of_char a mod 16)) = hex_value (hex_digit (of_char b mod 16))"
    by simp
  then have l': "(of_char a :: nat) mod 16 = of_char b mod 16"
    by (simp add: hex_value_hex_digit)
  have "(of_char a :: nat) = of_char b"
    using h' l' by (metis div_mult_mod_eq)
  then show ?thesis by simp
qed

lemma hexdigest_inj: "hexdigest x = hexdigest y \<Longrightarrow> x = y"
proof (induction x arbitrary: y)
  case Nil
  then show ?case by (cases y) (simp_all add: hexdigest_def hex_byte_def)
next
  case (Cons a x)
  show ?case
  proof (cases y)
    case Nil
    with Cons.prems show ?thesis by (simp add: hexdigest_def hex_byte_def)
  next
    case (Cons b y')
    with Cons.prems have "hex_byte a @ hexdigest x = hex_byte b @ hexdigest y'"
      by (simp add: hexdigest_def)
    moreover have "length (hex_byte a) = length (hex_byte b)" by (simp add: hex_byte_def)
    ultimately have "hex_byte a = hex_byte b" and "hexdigest x = hexdigest y'"
      by simp_all
    with Cons.IH hex_byte_inj show ?thesis using Cons by simp
  qed
qed

lemma compare_digest_hex:
  "is_ascii s \<Longrightarrow> compare_digest s (hexdigest d) = Inr (s = hexdigest d)"
  by (simp add: compare_digest_def is_ascii_hexdigest)




declare show_nat.simps [simp del]















lemma check_expiration_pass:
  "py_int expires = Some t \<Longrightarrow> now \<le> t \<Longrightarrow> check_expiration now expires = None"
  by (simp add: check_expiration_def)

lemma fromtimestamp_in_range:
  "datetime_min + 86400 \<le> t \<Longrightarrow> t \<le> datetime_max \<Longrightarrow> fromtimestamp t = Inr t"
  by (simp add: fromtimestamp_def datetime_min_def datetime_max_def)

lemma check_expiration_expired:
  "py_int expires = Some t \<Longrightarrow> t < now \<Longrightarrow> datetime_min + 86400 \<le> t \<Longrightarrow> t \<le> datetime_max \<Longrightarrow>
   check_expiration now expires = Some (Inr (expired_response (fmt_expired t)))"
  by (simp add: check_expiration_def fromtimestamp_in_range)

lemma handle_rejected:
  "check_link lib (environ w) (clock w []) ev = Inl (Inr r) \<Longrightarrow>
   handle_url_generation lib w ev = (r, [])"
  by (simp add: handle_url_generation_def handle_url_generation_body_def)


lemmas eval_defs =
  generate_signed_url_def py_str_int_def max_str_digits_def show_int_def show_nat.simps
  digit_char_def
  link_signature_def link_message_def hexdigest_def hex_byte_def hex_digit_def test_lib_def
  test_world_def secret_env_def

lemma link_message_one_field:
  assumes "(b' \<noteq> b \<and> k' = k \<and> e' = e) \<or> (b' = b \<and> k' \<noteq> k \<and> e' = e)
           \<or> (b' = b \<and> k' = k \<and> e' \<noteq> e)"
  shows "link_message b' k' e' \<noteq> link_message b k e"
  using assms by (auto simp: link_message_def)

lemma verify_other_signature:
  assumes "hmac_sha256 lib secret (link_message b' k' e') \<noteq> hmac_sha256 lib secret (link_message b k e)"
  shows "verify_signature lib b' k' e' (link_signature lib secret b k e) secret = Inr False"
proof -
  have "hexdigest (hmac_sha256 lib secret (link_message b k e))
        \<noteq> hexdigest (hmac_sha256 lib secret (link_message b' k' e'))"
    using assms hexdigest_inj by fastforce
  then show ?thesis
    by (simp add: verify_signature_def link_signature_def compare_digest_def is_ascii_hexdigest)
qed

lemma check_link_bad_signature:
  assumes "parse_link_request ev = Inr (b, ke, e, s)"
    and "check_expiration (clock w []) e = None"
    and "environ w ''SIGNING_SECRET'' = Some secret" and "secret \<noteq> []"
    and "verify_signature lib b (unquote lib ke) e s secret = Inr False"
  shows "check_link lib (environ w) (clock w []) ev = Inl (Inr invalid_signature_response)"
  using assms by (simp add: check_link_def Let_def)

text \<open>
  C2 (amended). Changing exactly one of bucket, key and \<^verbatim>\<open>expires\<close> changes the signed
  message. Whenever the HMAC digests of the two messages differ, \<^verbatim>\<open>verify_signature\<close>
  returns False for the old signature, and the handler answers 403 "Invalid signature",
  without any call, provided the changed \<^verbatim>\<open>expires\<close> still reads as an integer that the
  clock has not passed.
\<close>

theorem tampered_link_rejected:
  assumes one: "(b' \<noteq> b \<and> k' = k \<and> e' = e) \<or> (b' = b \<and> k' \<noteq> k \<and> e' = e)
           \<or> (b' = b \<and> k' = k \<and> e' \<noteq> e)"
  shows "link_message b' k' e' \<noteq> link_message b k e
    \<and> (hmac_sha256 lib secret (link_message b' k' e')
          \<noteq> hmac_sha256 lib secret (link_message b k e)
       \<longrightarrow> verify_signature lib b' k' e' (link_signature lib secret b k e) secret = Inr False
         \<and> (\<forall>(w::world) (ev::url_event) ke' t.
               parse_link_request ev = Inr (b', ke', e', link_signature lib secret b k e)
               \<and> unquote lib ke' = k' \<and> py_int e' = Some t \<and> clock w [] \<le> t
               \<and> environ w ''SIGNING_SECRET'' = Some secret \<and> secret \<noteq> []
               \<longrightarrow> handle_url_generation lib w ev = (invalid_signature_response, [])))"
proof (intro conjI impI allI)
  show "link_message b' k' e' \<noteq> link_message b k e"
    by (rule link_message_one_field [OF one])
next
  assume d: "hmac_sha256 lib secret (link_message b' k' e')
          \<noteq> hmac_sha256 lib secret (link_message b k e)"
  show v: "verify_signature lib b' k' e' (link_signature lib secret b k e) secret = Inr False"
    by (rule verify_other_signature [OF d])
  fix w :: world and ev :: url_event and ke' t
  assume a: "parse_link_request ev = Inr (b', ke', e', link_signature lib secret b k e)
               \<and> unquote lib ke' = k' \<and> py_int e' = Some t \<and> clock w [] \<le> t
               \<and> environ w ''SIGNING_SECRET'' = Some secret \<and> secret \<noteq> []"
  then have "check_expiration (clock w []) e' = None"
    by (simp add: check_expiration_pass)
  with a v have "check_link lib (environ w) (clock w []) ev = Inl (Inr invalid_signature_response)"
    by (intro check_link_bad_signature [where secret = secret]) auto
  then show "handle_url_generation lib w ev = (invalid_signature_response, [])"
    by (rule handle_rejected)
qed

lemma issued_signature:
  "link_signature test_lib ''s'' ''b'' ''k'' ''4600'' = ''733a623a6b3a34363030''"
  by (simp add: link_signature_def link_message_def hexdigest_def hex_byte_def hex_digit_def
      test_lib_def)

lemma tampered_parse:
  "e \<noteq> [] \<Longrightarrow> parse_link_request (tampered_event e)
     = Inr (''b'', ''k'', e, ''733a623a6b3a34363030'')"
  by (simp add: parse_link_request_def tampered_event_def)

theorem tampered_link_rejected_witness:
  "link_message ''b'' ''k'' ''4700'' \<noteq> link_message ''b'' ''k'' ''4600''
   \<and> verify_signature test_lib ''b'' ''k'' ''4700'' ''733a623a6b3a34363030'' ''s'' = Inr False
   \<and> handle_url_generation test_lib (test_world 1000 (secret_env ''s'') (\<lambda>k. True))
        (tampered_event ''4700'') = (invalid_signature_response, [])"
proof -
  have one: "(''b'' \<noteq> ''b'' \<and> ''k'' = ''k'' \<and> ''4700'' = ''4600'')
           \<or> (''b'' = ''b'' \<and> ''k'' \<noteq> ''k'' \<and> ''4700'' = ''4600'')
           \<or> (''b'' = ''b'' \<and> ''k'' = ''k'' \<and> ''4700'' \<noteq> ''4600'')"
    by simp
  have d: "hmac_sha256 test_lib ''s'' (link_message ''b'' ''k'' ''4700'')
          \<noteq> hmac_sha256 test_lib ''s'' (link_message ''b'' ''k'' ''4600'')"
    by (simp add: test_lib_def link_message_def)
  have p: "py_int ''4700'' = Some 4700"
    by (simp add: py_int_def is_int_space_def is_digit_def digits_value_def max_str_digits_def)
  note t = tampered_link_rejected [OF one, of test_lib "''s''", unfolded issued_signature]
  from t d have v: "verify_signature test_lib ''b'' ''k'' ''4700'' ''733a623a6b3a34363030'' ''s''
      = Inr False"
    by blast
  from t d have "handle_url_generation test_lib (test_world 1000 (secret_env ''s'') (\<lambda>k. True))
        (tampered_event ''4700'') = (invalid_signature_response, [])"
    using tampered_parse [of "''4700''"] p
    by (simp add: test_world_def secret_env_def test_lib_def)
  with t v show ?thesis by blast
qed

text \<open>
  C2 as stated fails: the link issued at time 1000 for one hour, with \<^verbatim>\<open>expires\<close>
  changed to 999 and the signature kept, is answered "expired" at time 1000, not
  "Invalid signature".
\<close>

theorem tampered_expires_counterexample:
  "generate_signed_url test_lib 1000 ''https://x'' ''b'' ''k'' ''s'' 1
     = Inr ''https://x/voicemail/b/k?expires=4600&signature=733a623a6b3a34363030''
   \<and> handle_url_generation test_lib (test_world 1000 (secret_env ''s'') (\<lambda>k. True))
        (tampered_event ''999'') = (expired_response ''1970-01-01 00:16:39 UTC'', [])
   \<and> expired_response ''1970-01-01 00:16:39 UTC'' \<noteq> invalid_signature_response"
proof -
  have g: "generate_signed_url test_lib 1000 ''https://x'' ''b'' ''k'' ''s'' 1
     = Inr ''https://x/voicemail/b/k?expires=4600&signature=733a623a6b3a34363030''"
    by (simp add: eval_defs)
  have p: "py_int ''999'' = Some 999"
    by (simp add: py_int_def is_int_space_def is_digit_def digits_value_def max_str_digits_def)
  have f: "fmt_expired 999 = ''1970-01-01 00:16:39 UTC''" by code_simp
  have c: "check_expiration 1000 ''999'' = Some (Inr (expired_response ''1970-01-01 00:16:39 UTC''))"
    using check_expiration_expired [OF p, of 1000]
    by (simp add: datetime_min_def datetime_max_def f)
  have "check_link test_lib (secret_env ''s'') 1000 (tampered_event ''999'')
        = Inl (Inr (expired_response ''1970-01-01 00:16:39 UTC''))"
    using tampered_parse [of "''999''"] c by (simp add: check_link_def)
  then have h: "handle_url_generation test_lib (test_world 1000 (secret_env ''s'') (\<lambda>k. True))
        (tampered_event ''999'') = (expired_response ''1970-01-01 00:16:39 UTC'', [])"
    by (intro handle_rejected) (simp add: test_world_def)
  have n: "expired_response ''1970-01-01 00:16:39 UTC'' \<noteq> invalid_signature_response"
    by (simp add: expired_response_def invalid_signature_response_def html_response_def)
  from g h n show ?thesis by blast
qed

lemma check_link_expiration:
  assumes "parse_link_request ev = Inr (b, ke, e, s)"
    and "check_expiration now e = Some r"
  shows "check_link lib env now ev = Inl r"
  using assms by (simp add: check_link_def Let_def)

lemma handle_check_link_Inl:
  "check_link lib (environ w) (clock w []) ev = Inl r \<Longrightarrow>
   handle_url_generation lib w ev = ((case r of Inl e \<Rightarrow> failed_response | Inr x \<Rightarrow> x), [])"
  by (cases r) (simp_all add: handle_url_generation_def handle_url_generation_body_def)

text \<open>
  C3 (amended). A request with a well-formed path and both parameters whose
  \<^verbatim>\<open>expires\<close> does not read as an integer is answered 400 "Invalid expiration
  timestamp". An \<^verbatim>\<open>expires\<close> that reads as an integer earlier than the clock (as every
  negative integer does once the clock is not negative) is answered 403 "expired" when its
  date lies in the years 1 to 9999.
\<close>

theorem malformed_expiry_rejected:
  assumes "parse_link_request ev = Inr (b, ke, e, s)"
  shows "(py_int e = None
            \<longrightarrow> handle_url_generation lib w ev = (invalid_expiration_response, []))
    \<and> (\<forall>t. py_int e = Some t \<and> t < clock w []
             \<and> datetime_min + 86400 \<le> t \<and> t \<le> datetime_max
            \<longrightarrow> handle_url_generation lib w ev = (expired_response (fmt_expired t), []))"
proof (intro conjI impI allI)
  assume "py_int e = None"
  then have "check_expiration (clock w []) e = Some (Inr invalid_expiration_response)"
    by (simp add: check_expiration_def)
  from check_link_expiration [OF assms this]
  show "handle_url_generation lib w ev = (invalid_expiration_response, [])"
    by (rule handle_rejected)
next
  fix t
  assume "py_int e = Some t \<and> t < clock w [] \<and> datetime_min + 86400 \<le> t \<and> t \<le> datetime_max"
  then have "check_expiration (clock w []) e = Some (Inr (expired_response (fmt_expired t)))"
    by (intro check_expiration_expired) auto
  from check_link_expiration [OF assms this]
  show "handle_url_generation lib w ev = (expired_response (fmt_expired t), [])"
    by (rule handle_rejected)
qed

theorem malformed_expiry_rejected_witness:
  "handle_url_generation test_lib (test_world 1000 (secret_env ''s'') (\<lambda>k. True))
     (tampered_event ''soon'') = (invalid_expiration_response, [])
   \<and> handle_url_generation test_lib (test_world 1000 (secret_env ''s'') (\<lambda>k. True))
     (tampered_event ''12'') = (expired_response ''1970-01-01 00:00:12 UTC'', [])"
proof -
  have n: "py_int ''soon'' = None"
    by (simp add: py_int_def is_int_space_def is_digit_def)
  have p: "py_int ''12'' = Some 12"
    by (simp add: py_int_def is_int_space_def is_digit_def digits_value_def max_str_digits_def)
  have f: "fmt_expired 12 = ''1970-01-01 00:00:12 UTC''" by code_simp
  have ps: "parse_link_request (tampered_event ''soon'')
      = Inr (''b'', ''k'', ''soon'', ''733a623a6b3a34363030'')"
    by (rule tampered_parse) simp
  have pt: "parse_link_request (tampered_event ''12'')
      = Inr (''b'', ''k'', ''12'', ''733a623a6b3a34363030'')"
    by (rule tampered_parse) simp
  from malformed_expiry_rejected [OF ps, THEN conjunct1, rule_format,
      OF n, of test_lib "test_world 1000 (secret_env ''s'') (\<lambda>k. True)"]
  have a: "handle_url_generation test_lib (test_world 1000 (secret_env ''s'') (\<lambda>k. True))
     (tampered_event ''soon'') = (invalid_expiration_response, [])"
    by simp
  from malformed_expiry_rejected [OF pt, THEN conjunct2, rule_format,
      of 12 "test_world 1000 (secret_env ''s'') (\<lambda>k. True)" test_lib]
  have b: "handle_url_generation test_lib (test_world 1000 (secret_env ''s'') (\<lambda>k. True))
     (tampered_event ''12'') = (expired_response ''1970-01-01 00:00:12 UTC'', [])"
    by (simp add: p f test_world_def datetime_min_def datetime_max_def)
  from a b show ?thesis by blast
qed

text \<open>
  C3 as stated fails: \<^verbatim>\<open>expires=-5\<close> is a negative integer, and the handler answers
  403 "expired", not 400.
\<close>

theorem negative_expires_counterexample:
  "py_int ''-5'' = Some (- 5)
   \<and> handle_url_generation test_lib (test_world 1000 (secret_env ''s'') (\<lambda>k. True))
        (tampered_event ''-5'') = (expired_response ''1969-12-31 23:59:55 UTC'', [])
   \<and> statusCode (expired_response ''1969-12-31 23:59:55 UTC'') = 403
   \<and> expired_response ''1969-12-31 23:59:55 UTC'' \<noteq> invalid_expiration_response"
proof -
  have p: "py_int ''-5'' = Some (- 5)"
    by (simp add: py_int_def is_int_space_def is_digit_def digits_value_def max_str_digits_def)
  have f: "fmt_expired (- 5) = ''1969-12-31 23:59:55 UTC''" by code_simp
  have c: "check_expiration 1000 ''-5'' = Some (Inr (expired_response ''1969-12-31 23:59:55 UTC''))"
    using check_expiration_expired [OF p, of 1000]
    by (simp add: datetime_min_def datetime_max_def f)
  have "check_link test_lib (secret_env ''s'') 1000 (tampered_event ''-5'')
        = Inl (Inr (expired_response ''1969-12-31 23:59:55 UTC''))"
    using tampered_parse [of "''-5''"] c by (simp add: check_link_def)
  then have h: "handle_url_generation test_lib (test_world 1000 (secret_env ''s'') (\<lambda>k. True))
        (tampered_event ''-5'') = (expired_response ''1969-12-31 23:59:55 UTC'', [])"
    by (intro handle_rejected) (simp add: test_world_def)
  have s: "statusCode (expired_response ''1969-12-31 23:59:55 UTC'') = 403"
    by (simp add: expired_response_def html_response_def)
  have n: "expired_response ''1969-12-31 23:59:55 UTC'' \<noteq> invalid_expiration_response"
    by (simp add: expired_response_def invalid_expiration_response_def html_response_def)
  from p h s n show ?thesis by blast
qed

lemma redirect_never_403:
  "statusCode (fst (case redirect_to_object w b k of
      (Inl e, calls) \<Rightarrow> (failed_response, calls) | (Inr r, calls) \<Rightarrow> (r, calls))) \<noteq> 403"
  by (simp add: redirect_to_object_def Let_def failed_response_def html_response_def
      recording_not_found_response_def redirect_response_def
      split: option.splits sum.splits)








lemma rejection_before_object_store:
  assumes "check_link lib (environ w) (clock w []) ev = Inl r"
    and "environ w' = environ w" and "clock w' [] = clock w []"
  shows "handle_url_generation lib w' ev = handle_url_generation lib w ev"
    and "snd (handle_url_generation lib w ev) = []"
proof -
  from assms have "check_link lib (environ w') (clock w' []) ev = Inl r" by simp
  then show "handle_url_generation lib w' ev = handle_url_generation lib w ev"
    by (simp add: handle_check_link_Inl [OF assms(1)] handle_check_link_Inl)
  show "snd (handle_url_generation lib w ev) = []"
    by (simp add: handle_check_link_Inl [OF assms(1)])
qed

text \<open>
  C9. The handler does not answer every request whose signature fails to verify with 403:
  when the signature holds a non-ASCII character, \<^verbatim>\<open>hmac.compare_digest\<close> raises
  TypeError inside \<^verbatim>\<open>verify_signature\<close>, and the outer \<^verbatim>\<open>except Exception\<close> answers
  500 "Failed to generate URL". The answer is the same whether the object exists or not,
  and no call is made.
\<close>

theorem non_ascii_signature_answered_500:
  "verify_signature test_lib ''b'' ''k'' ''4700'' [CHR 0xE9] ''s'' = Inl TypeError
   \<and> handle_url_generation test_lib (test_world 1000 (secret_env ''s'') (\<lambda>k. True))
        non_ascii_event = (failed_response, [])
   \<and> handle_url_generation test_lib (test_world 1000 (secret_env ''s'') (\<lambda>k. False))
        non_ascii_event = (failed_response, [])
   \<and> statusCode failed_response = 500
   \<and> failed_response \<noteq> invalid_signature_response"
proof -
  have v: "verify_signature test_lib ''b'' ''k'' ''4700'' [CHR 0xE9] ''s'' = Inl TypeError"
    by (simp add: verify_signature_def compare_digest_def is_ascii_def)
  have p: "py_int ''4700'' = Some 4700"
    by (simp add: py_int_def is_int_space_def is_digit_def digits_value_def max_str_digits_def)
  have c: "check_expiration 1000 ''4700'' = None"
    by (rule check_expiration_pass [OF p]) simp
  have pr: "parse_link_request non_ascii_event = Inr (''b'', ''k'', ''4700'', [CHR 0xE9])"
    by (simp add: parse_link_request_def non_ascii_event_def)
  have u: "unquote test_lib ''k'' = ''k''" by (simp add: test_lib_def)
  have cl: "check_link test_lib (secret_env ''s'') 1000 non_ascii_event = Inl (Inl TypeError)"
    using pr c v u by (simp add: check_link_def secret_env_def)
  have a: "handle_url_generation test_lib (test_world 1000 (secret_env ''s'') present)
        non_ascii_event = (failed_response, [])" for present
    using cl by (simp add: handle_url_generation_def handle_url_generation_body_def test_world_def)
  have s: "statusCode failed_response = 500"
    by (simp add: failed_response_def html_response_def)
  have n: "failed_response \<noteq> invalid_signature_response"
    by (simp add: failed_response_def invalid_signature_response_def html_response_def)
  from v a s n show ?thesis by blast
qed

lemma offset_minutes_candidate [simp]:
  "offset_minutes (candidate lib bucket prefix ident now off) = off"
  by (simp add: candidate_def Let_def)

lemma candidates_Inr:
  "candidates lib bucket prefix ident now offs = Inr ls \<Longrightarrow>
   ls = map (candidate lib bucket prefix ident now) offs"
  by (induction offs arbitrary: ls) (auto split: if_splits sum.splits)

lemma candidates_in_range:
  "\<forall>off\<in>set offs. datetime_min \<le> now + 60 * off \<and> now + 60 * off \<le> datetime_max \<Longrightarrow>
   candidates lib bucket prefix ident now offs = Inr (map (candidate lib bucket prefix ident now) offs)"
  by (induction offs) auto

lemma insort_key_map:
  "insort_key f (g x) (map g ys) = map g (insort_key (\<lambda>y. f (g y)) x ys)"
  by (induction ys) auto

lemma sort_key_map: "sort_key f (map g xs) = map g (sort_key (\<lambda>y. f (g y)) xs)"
  by (induction xs) (simp_all add: insort_key_map)

lemma probe_locations_calls:
  "\<exists>n. snd (probe_locations w bucket locs calls)
        = calls @ map (\<lambda>l. HeadObject bucket (loc_key l)) (take n locs)"
proof (induction locs arbitrary: calls)
  case Nil
  show ?case by simp
next
  case (Cons loc rest)
  show ?case
  proof (cases "head_object w calls bucket (loc_key loc) = Some (ClientError ''404'')")
    case True
    from Cons [of "calls @ [HeadObject bucket (loc_key loc)]"] obtain n where
      "snd (probe_locations w bucket rest (calls @ [HeadObject bucket (loc_key loc)]))
        = (calls @ [HeadObject bucket (loc_key loc)])
          @ map (\<lambda>l. HeadObject bucket (loc_key l)) (take n rest)" by blast
    with True have "snd (probe_locations w bucket (loc # rest) calls)
        = calls @ map (\<lambda>l. HeadObject bucket (loc_key l)) (take (Suc n) (loc # rest))"
      by simp
    then show ?thesis by blast
  next
    case False
    then have "snd (probe_locations w bucket (loc # rest) calls)
        = calls @ map (\<lambda>l. HeadObject bucket (loc_key l)) (take (Suc 0) (loc # rest))"
      by (auto split: option.splits)
    then show ?thesis by blast
  qed
qed

lemma window_order: "sort_key (\<lambda>off. \<bar>off\<bar>) [- 5..5] = [0, - 1, 1, - 2, 2, - 3, 3, - 4, 4, - 5, 5::int]"
  by code_simp

lemma windows: "rev [1..MAX_TIME_WINDOW_MINUTES] = [5, 4, 3, 2, 1]"
  unfolding MAX_TIME_WINDOW_MINUTES_def by code_simp

lemma probe_hit_at_plus_two:
  assumes h: "\<forall>cs. \<forall>off\<in>{- 5..5}.
          head_object w cs bucket (loc_key (c (off::int)))
            = (if off = 2 then None else Some (ClientError ''404''))"
  shows "probe_locations w bucket (map c [0, - 1, 1, - 2, 2, - 3, 3, - 4, 4, - 5, 5]) calls
         = (Inr (Some (c 2)),
            calls @ map (\<lambda>off. HeadObject bucket (loc_key (c off))) [0, - 1, 1, - 2, 2])"
proof -
  have miss: "head_object w cs bucket (loc_key (c off)) = Some (ClientError ''404'')"
    if "off \<in> {- 5..5}" "off \<noteq> 2" for cs off
    using h that by simp
  have hit: "head_object w cs bucket (loc_key (c 2)) = None" for cs
    using h by simp
  show ?thesis
    by (simp add: miss hit)
qed

text \<open>
  C4. In every window the candidates are probed in the order of the list sorted by
  absolute offset: that list has non-decreasing absolute offsets, and the existence checks
  made in the window are those of a prefix of it, in order. When, in the first window of
  5 minutes, the check succeeds only at offset +2, the checks made are those of the offsets
  0, -1, 1, -2, 2, in this order, and the search returns the candidate of offset +2.
\<close>

theorem window_probes_nearest_first:
  "(\<forall>W s3_uris.
      generate_s3_uris_with_time_window lib bucket prefix ident now W = Inr s3_uris
      \<longrightarrow> map offset_minutes s3_uris = [- W..W]
        \<and> sorted (map (\<lambda>x. \<bar>offset_minutes x\<bar>) (sort_key (\<lambda>x. \<bar>offset_minutes x\<bar>) s3_uris))
        \<and> (\<forall>cs. \<exists>n. snd (probe_locations w bucket
                              (sort_key (\<lambda>x. \<bar>offset_minutes x\<bar>) s3_uris) cs)
               = cs @ map (\<lambda>l. HeadObject bucket (loc_key l))
                        (take n (sort_key (\<lambda>x. \<bar>offset_minutes x\<bar>) s3_uris))))
   \<and> (datetime_min \<le> utcnow w calls - 300 \<and> utcnow w calls + 300 \<le> datetime_max
      \<and> (\<forall>cs. \<forall>off\<in>{- 5..5}.
            head_object w cs bucket
              (loc_key (candidate lib bucket prefix ident (utcnow w calls) off))
            = (if off = 2 then None else Some (ClientError ''404'')))
      \<longrightarrow> find_recording_in_s3 lib w bucket prefix ident calls
          = (Inr (Some (candidate lib bucket prefix ident (utcnow w calls) 2)),
             calls @ map (\<lambda>off. HeadObject bucket
                            (loc_key (candidate lib bucket prefix ident (utcnow w calls) off)))
                       [0, - 1, 1, - 2, 2]))"
proof (intro conjI allI impI)
  fix W s3_uris
  assume g: "generate_s3_uris_with_time_window lib bucket prefix ident now W = Inr s3_uris"
  then have s: "s3_uris = map (candidate lib bucket prefix ident now) [- W..W]"
    unfolding generate_s3_uris_with_time_window_def by (rule candidates_Inr)
  show "map offset_minutes s3_uris = [- W..W]"
    unfolding s by (simp add: comp_def)
  show "sorted (map (\<lambda>x. \<bar>offset_minutes x\<bar>) (sort_key (\<lambda>x. \<bar>offset_minutes x\<bar>) s3_uris))"
    by (rule sorted_sort_key)
  fix cs
  show "\<exists>n. snd (probe_locations w bucket (sort_key (\<lambda>x. \<bar>offset_minutes x\<bar>) s3_uris) cs)
               = cs @ map (\<lambda>l. HeadObject bucket (loc_key l))
                        (take n (sort_key (\<lambda>x. \<bar>offset_minutes x\<bar>) s3_uris))"
    by (rule probe_locations_calls)
next
  let ?now = "utcnow w calls"
  let ?c = "candidate lib bucket prefix ident ?now"
  assume a: "datetime_min \<le> ?now - 300 \<and> ?now + 300 \<le> datetime_max
      \<and> (\<forall>cs. \<forall>off\<in>{- 5..5}.
            head_object w cs bucket (loc_key (?c off))
            = (if off = 2 then None else Some (ClientError ''404'')))"
  have "\<forall>off\<in>set [- 5..5]. datetime_min \<le> ?now + 60 * off \<and> ?now + 60 * off \<le> datetime_max"
    using a by auto
  then have g: "generate_s3_uris_with_time_window lib bucket prefix ident ?now 5
                = Inr (map ?c [- 5..5])"
    unfolding generate_s3_uris_with_time_window_def by (rule candidates_in_range)
  have so: "sort_key (\<lambda>x. \<bar>offset_minutes x\<bar>) (map ?c [- 5..5])
            = map ?c [0, - 1, 1, - 2, 2, - 3, 3, - 4, 4, - 5, 5]"
    by (simp only: sort_key_map offset_minutes_candidate window_order)
  have p: "probe_locations w bucket (map ?c [0, - 1, 1, - 2, 2, - 3, 3, - 4, 4, - 5, 5]) calls
         = (Inr (Some (?c 2)),
            calls @ map (\<lambda>off. HeadObject bucket (loc_key (?c off))) [0, - 1, 1, - 2, 2])"
    using a by (intro probe_hit_at_plus_two) blast
  show "find_recording_in_s3 lib w bucket prefix ident calls
          = (Inr (Some (?c 2)),
             calls @ map (\<lambda>off. HeadObject bucket (loc_key (?c off))) [0, - 1, 1, - 2, 2])"
    unfolding find_recording_in_s3_def windows
    by (simp only: search_windows.simps g so p sum.case prod.case option.case)
qed

end
